theory Spec2Isabelle
  imports Complex_Main
begin

section \<open>Overview\<close>

text \<open>
  A shallow embedding of the risk scoring and nowcast engine of the environmental
  monitoring service: the risk formula and the batch analytics
  (\<open>src/analyticsEngine.js\<close>), the reservoir matcher
  (\<open>src/utils/reservoirMatcher.js\<close>), the risk check (\<open>src/riskEngine.js\<close>) and the
  one-hour nowcast with its trend history. Each JavaScript function is a HOL function
  of the same name; a local constant of a long function body is a function of the
  arguments, under the name it has in the source. The outcomes of the network
  requests, the clock and the module-level history map are arguments; an exception
  that leaves a function is a value of its result. The definitions come first, the
  properties after them.
\<close>

section \<open>JavaScript values and numeric helpers\<close>

text \<open>
  A field of an input object is used by the scoring code only through \<open>Number(v)\<close>,
  \<open>Number.isFinite\<close> and the operators \<open>??\<close> and \<open>== null\<close>. Four cases of a value
  are told apart by these: \<open>undefined\<close>, \<open>null\<close> (for which \<open>Number\<close> gives 0), a finite
  number, and anything whose \<open>Number\<close> is \<open>NaN\<close> or infinite. In the risk formula a
  finite double is a real number and the rounding error of the individual operations
  is left out: it moves a score by less than the formula's own rounding to integers
  and not out of its range. In the reservoir matcher, where scores are compared with
  each other and with a threshold, the rounding is modelled.
\<close>

datatype jsval = Undefined | Null | Num real | NonFinite

text \<open>\<open>Number(v)\<close> when \<open>Number.isFinite(Number(v))\<close>, and \<open>None\<close> otherwise.\<close>

definition toNumber :: "jsval \<Rightarrow> real option" where
  "toNumber v = (case v of Undefined \<Rightarrow> None | Null \<Rightarrow> Some 0 | Num x \<Rightarrow> Some x | NonFinite \<Rightarrow> None)"

definition safeNum :: "jsval \<Rightarrow> real \<Rightarrow> real" where
  "safeNum v fallback = (case toNumber v of Some num \<Rightarrow> num | None \<Rightarrow> fallback)"

text \<open>The operator \<open>a ?? b\<close>.\<close>

definition coalesce :: "jsval \<Rightarrow> jsval \<Rightarrow> jsval" where
  "coalesce a b = (if a = Undefined \<or> a = Null then b else a)"

definition clamp :: "real \<Rightarrow> real \<Rightarrow> real \<Rightarrow> real" where
  "clamp v lo hi = max lo (min hi v)"

definition sigmoidTo100 :: "real \<Rightarrow> real \<Rightarrow> real \<Rightarrow> real" where
  "sigmoidTo100 v center steepness =
     (let z = steepness * (v - center) in 100 / (1 + exp (- z)))"

text \<open>\<open>String.prototype.toLowerCase\<close> on the ASCII letters (a capital letter and its small
  letter differ in bit 5 of the code); strings are byte strings here.\<close>

definition isUpper :: "char \<Rightarrow> bool" where
  "isUpper c = (let n = (of_char c :: nat) in 65 \<le> n \<and> n \<le> 90)"

fun setBit5 :: "char \<Rightarrow> char" where
  "setBit5 (Char b0 b1 b2 b3 b4 b5 b6 b7) = Char b0 b1 b2 b3 b4 True b6 b7"

definition toLowerChar :: "char \<Rightarrow> char" where
  "toLowerChar c = (if isUpper c then setBit5 c else c)"

definition toLowerCase :: "string \<Rightarrow> string" where
  "toLowerCase s = map toLowerChar s"

datatype level = LOW | MEDIUM | HIGH

definition riskLevel :: "int \<Rightarrow> level" where
  "riskLevel sc = (if sc \<le> 33 then LOW else if sc \<le> 66 then MEDIUM else HIGH)"

section \<open>Exceptions and double arithmetic\<close>

text \<open>
  A thrown value, as far as the code tells them apart: \<open>null\<close> or \<open>undefined\<close>, an
  object with its \<open>message\<close> property (\<open>None\<close> when it has none), and a \<open>TypeError\<close>
  raised by the engine. Reading \<open>e.message\<close> of a caught value throws a \<open>TypeError\<close>
  when the value is \<open>null\<close> or \<open>undefined\<close>; the text of an engine's \<open>TypeError\<close> is
  not modelled.
\<close>

datatype thrown = Nullish | ErrorObj "string option" | TypeError

datatype messageT = NoMessage | Message string | TypeErrorMessage

definition messageOf :: "thrown \<Rightarrow> thrown + messageT" where
  "messageOf e =
     (case e of
        Nullish \<Rightarrow> Inl TypeError
      | ErrorObj None \<Rightarrow> Inr NoMessage
      | ErrorObj (Some m) \<Rightarrow> Inr (Message m)
      | TypeError \<Rightarrow> Inr TypeErrorMessage)"

text \<open>
  The scores of the reservoir matcher are compared with each other and with a
  threshold, so there the rounding of double arithmetic is modelled. A double is the
  rational number it stands for, and the result of an arithmetic operation is the
  exact result rounded to the nearest double, ties to the even significand
  (\<open>fl64\<close>). All values of the matcher are far inside the range of normal doubles;
  overflow and subnormal numbers are not modelled.
\<close>

function bitLength :: "int \<Rightarrow> nat" where
  "bitLength n = (if n \<le> 0 then 0 else Suc (bitLength (n div 2)))"
  by pat_completeness auto
termination
  by (relation "measure nat") auto

declare bitLength.simps [simp del]

definition pow2 :: "int \<Rightarrow> rat" where
  "pow2 e = (if 0 \<le> e then 2 ^ nat e else 1 / 2 ^ nat (- e))"

text \<open>The binary exponent of a positive rational: \<open>pow2 (binExp q) \<le> q < pow2 (binExp q + 1)\<close>.\<close>

definition binExp :: "rat \<Rightarrow> int" where
  "binExp q =
     (let (n, d) = quotient_of q;
          k = int (bitLength n) - int (bitLength d)
      in if pow2 k \<le> q then k else k - 1)"

definition roundHalfEven :: "rat \<Rightarrow> int" where
  "roundHalfEven m =
     (let f = \<lfloor>m\<rfloor>; diff = m - of_int f
      in if diff < 1 / 2 then f
         else if 1 / 2 < diff then f + 1
         else if even f then f else f + 1)"

definition fl64 :: "rat \<Rightarrow> rat" where
  "fl64 q =
     (if q = 0 then 0
      else (let e = binExp \<bar>q\<bar> - 52
            in of_int (roundHalfEven (q / pow2 e)) * pow2 e))"

text \<open>\<open>Math.round\<close> of a double: the nearest integer, a tie going up.\<close>

definition mathRound :: "rat \<Rightarrow> int" where
  "mathRound x = \<lfloor>x + 1 / 2\<rfloor>"

section \<open>Reservoir matcher (src/utils/reservoirMatcher.js)\<close>

text \<open>
  A reservoir telemetry record. An absent or empty name or state is the empty string
  (both are falsy for the code); \<open>match_score\<close>, a double, is present only on a
  record returned by the matcher.
\<close>

record reservoirT =
  res_name :: string
  res_state :: string
  level_pct :: jsval
  inflow :: jsval
  outflow :: jsval
  match_score :: "rat option"

definition emptyReservoir :: reservoirT where
  "emptyReservoir =
     \<lparr>res_name = [], res_state = [], level_pct = Undefined, inflow = Undefined,
      outflow = Undefined, match_score = None\<rparr>"

text \<open>
  A monitored dam. An absent name or state is the empty string, which the code treats
  like \<open>undefined\<close> (both are falsy).
\<close>

record damT =
  dam_id :: string
  dam_name :: string
  dam_state :: string
  lat :: real
  lon :: real

text \<open>
  The character classes of the regular expressions of \<open>normalizeText\<close>, on ASCII:
  \<open>\s\<close> is space, tab, line feed, vertical tab, form feed and carriage return.
\<close>

definition isSpace :: "char \<Rightarrow> bool" where
  "isSpace c = (let n = (of_char c :: nat) in n = 32 \<or> (9 \<le> n \<and> n \<le> 13))"

definition isDigit :: "char \<Rightarrow> bool" where
  "isDigit c = (let n = (of_char c :: nat) in 48 \<le> n \<and> n \<le> 57)"

definition isLowerAlnum :: "char \<Rightarrow> bool" where
  "isLowerAlnum c = (let n = (of_char c :: nat) in (97 \<le> n \<and> n \<le> 122) \<or> isDigit c)"

text \<open>The first replacement: every character outside \<open>[a-z0-9\s]\<close> becomes a space.\<close>

definition stripPunctuation :: "string \<Rightarrow> string" where
  "stripPunctuation s = map (\<lambda>c. if isLowerAlnum c \<or> isSpace c then c else CHR '' '') s"

text \<open>The maximal runs of characters that are not white space, in order.\<close>

fun wordsAcc :: "string \<Rightarrow> string \<Rightarrow> string list" where
  "wordsAcc cur [] = (if cur = [] then [] else [cur])"
| "wordsAcc cur (c # cs) =
     (if isSpace c then (if cur = [] then wordsAcc [] cs else cur # wordsAcc [] cs)
      else wordsAcc (cur @ [c]) cs)"

definition wordsOf :: "string \<Rightarrow> string list" where
  "wordsOf s = wordsAcc [] s"

text \<open>
  The alternatives of the second regular expression,
  \<open>\b(dam|reservoir|barrage|project|lake|rl\d+|ph|bbmb)\b\<close>. After the first
  replacement the string has only letters, digits and white space, so a word boundary
  is exactly an end of a maximal run of letters and digits, and a match is exactly such
  a run that is one of the alternatives.
\<close>

definition isStopWord :: "string \<Rightarrow> bool" where
  "isStopWord w =
     (w \<in> set [''dam'', ''reservoir'', ''barrage'', ''project'', ''lake'', ''ph'', ''bbmb'']
      \<or> (take 2 w = ''rl'' \<and> drop 2 w \<noteq> [] \<and> list_all isDigit (drop 2 w)))"

fun joinWith :: "char \<Rightarrow> string list \<Rightarrow> string" where
  "joinWith sep [] = []"
| "joinWith sep [w] = w"
| "joinWith sep (w # ws) = w @ sep # joinWith sep ws"

text \<open>
  \<open>normalizeText\<close>: lower case, the two replacements, then runs of white space
  collapsed to one space and the ends trimmed. The matched words of the second
  replacement become white space, so what is left is the other words, joined by
  single spaces.
\<close>

definition normalizeText :: "string \<Rightarrow> string" where
  "normalizeText v =
     joinWith (CHR '' '')
       (filter (\<lambda>w. \<not> isStopWord w) (wordsOf (stripPunctuation (toLowerCase v))))"

text \<open>\<open>text.split(' ')\<close>.\<close>

fun splitAcc :: "string \<Rightarrow> string \<Rightarrow> string list" where
  "splitAcc cur [] = [cur]"
| "splitAcc cur (c # cs) =
     (if c = CHR '' '' then cur # splitAcc [] cs else splitAcc (cur @ [c]) cs)"

definition tokens :: "string \<Rightarrow> string list" where
  "tokens v =
     (let text = normalizeText v
      in if text = [] then [] else filter (\<lambda>t. length t > 2) (splitAcc [] text))"

text \<open>
  The sets \<open>A\<close> and \<open>B\<close> are lists without duplicates. The two counts are exact
  doubles; their quotient is rounded.
\<close>

definition jaccardScore :: "string \<Rightarrow> string \<Rightarrow> rat" where
  "jaccardScore a b =
     (let A = remdups (tokens a); B = remdups (tokens b)
      in if A = [] \<or> B = [] then 0
         else (let intersection = length (filter (\<lambda>item. item \<in> set B) A);
                   union = length (remdups (A @ B))
               in if union \<noteq> 0 then fl64 (of_nat intersection / of_nat union) else 0))"

definition DAM_ALIASES :: "(string \<times> string list) list" where
  "DAM_ALIASES =
     [(''tehri dam'', [''tehri'']),
      (''bhakra nangal dam'', [''bhakra'', ''bhakra dam'']),
      (''hirakud dam'', [''hirakud'']),
      (''sardar sarovar dam'', [''sardar sarovar'']),
      (''nagarjuna sagar dam'', [''nagarjuna sagar'']),
      (''srisailam dam'', [''srisailam'']),
      (''idukki dam'', [''idukki'']),
      (''koyna dam'', [''koyna'']),
      (''indira sagar dam'', [''indira sagar'', ''narmada sagar'']),
      (''krishna raja sagara'', [''krishna raja sagar'', ''krs'']),
      (''mettur dam'', [''mettur'']),
      (''maithon dam'', [''maithon'']),
      (''panchet dam'', [''panchet'']),
      (''ukai dam'', [''ukai'']),
      (''pong dam'', [''pong'']),
      (''pandoh dam'', [''pandoh'']),
      (''chamera dam'', [''chamera'']),
      (''gumti dam'', [''gumti'']),
      (''ramganga dam'', [''ramganga'']),
      (''nizam sagar'', [''nizam sagar'', ''nizamsagar'']),
      (''singur dam'', [''singur'']),
      (''kadana dam'', [''kadana'']),
      (''dantiwada dam'', [''dantiwada'']),
      (''umiam lake dam'', [''umiam'', ''umiam lake''])]"

text \<open>
  \<open>DAM_ALIASES\<close> is a plain object, so \<open>DAM_ALIASES[key]\<close> also finds the properties
  that every object inherits from \<open>Object.prototype\<close>. The key is in lower case; the
  inherited properties with a name in lower case are \<open>constructor\<close> (a function) and
  \<open>__proto__\<close> (an object). Both are truthy and not iterable, so for these two keys
  the spread \<open>...aliases\<close> throws a \<open>TypeError\<close>.
\<close>

definition inheritedKey :: "string \<Rightarrow> bool" where
  "inheritedKey key = (key = ''constructor'' \<or> key = ''__proto__'')"

definition getCandidateNames :: "string \<Rightarrow> thrown + string list" where
  "getCandidateNames damName =
     (let key = toLowerCase damName
      in if inheritedKey key then Inl TypeError
         else (let aliases = (case map_of DAM_ALIASES key of None \<Rightarrow> [] | Some as \<Rightarrow> as)
               in Inr (filter (\<lambda>n. n \<noteq> []) (damName # aliases))))"

text \<open>\<open>s.includes(p)\<close>: \<open>p\<close> occurs in \<open>s\<close> as a contiguous substring.\<close>

fun startsWith :: "string \<Rightarrow> string \<Rightarrow> bool" where
  "startsWith s [] = True"
| "startsWith [] (p # ps) = False"
| "startsWith (c # cs) (p # ps) = (c = p \<and> startsWith cs ps)"

fun includes_str :: "string \<Rightarrow> string \<Rightarrow> bool" where
  "includes_str [] p = (p = [])"
| "includes_str (c # cs) p = (startsWith (c # cs) p \<or> includes_str cs p)"

text \<open>
  The loop of \<open>scoreReservoirMatch\<close> over the candidate names of the dam. The literal
  \<open>0.9\<close> is the double nearest to 9/10; comparisons and \<open>Math.max\<close> are exact.
\<close>

fun nameLoop :: "string list \<Rightarrow> string \<Rightarrow> rat \<Rightarrow> rat" where
  "nameLoop [] reservoirName bestNameScore = bestNameScore"
| "nameLoop (name # rest) reservoirName bestNameScore =
     (let sc = jaccardScore name reservoirName;
          best1 = (if sc > bestNameScore then sc else bestNameScore);
          normDam = normalizeText name;
          normRes = normalizeText reservoirName;
          best2 = (if normDam \<noteq> [] \<and> normRes \<noteq> []
                      \<and> (includes_str normRes normDam \<or> includes_str normDam normRes)
                   then max best1 (fl64 (9 / 10)) else best1)
      in nameLoop rest reservoirName best2)"

text \<open>
  \<open>scoreReservoirMatch\<close>: the candidate names are computed first, so a throw of
  \<open>getCandidateNames\<close> leaves the function at once. The sum of the name score and the
  bonus is a double addition.
\<close>

definition scoreReservoirMatch :: "damT \<Rightarrow> reservoirT \<Rightarrow> thrown + rat" where
  "scoreReservoirMatch dam reservoir =
     (case getCandidateNames (dam_name dam) of
        Inl e \<Rightarrow> Inl e
      | Inr damNames \<Rightarrow>
          (let reservoirName = res_name reservoir;
               damState = normalizeText (dam_state dam);
               reservoirState = normalizeText (res_state reservoir);
               bestNameScore = nameLoop damNames reservoirName 0;
               stateBonus = (if damState \<noteq> [] \<and> reservoirState \<noteq> []
                                \<and> damState = reservoirState
                             then fl64 (2 / 10) else 0)
           in Inr (fl64 (bestNameScore + stateBonus))))"

text \<open>
  The loop of \<open>matchReservoirToDam\<close>: a candidate replaces the best one only when its
  score is strictly greater. A throw of \<open>scoreReservoirMatch\<close> ends the loop.
\<close>

fun matchLoop ::
  "damT \<Rightarrow> reservoirT list \<Rightarrow> reservoirT option \<Rightarrow> rat
     \<Rightarrow> thrown + (reservoirT option \<times> rat)" where
  "matchLoop dam [] best bestScore = Inr (best, bestScore)"
| "matchLoop dam (reservoir # rest) best bestScore =
     (case scoreReservoirMatch dam reservoir of
        Inl e \<Rightarrow> Inl e
      | Inr sc \<Rightarrow>
          if sc > bestScore then matchLoop dam rest (Some reservoir) sc
          else matchLoop dam rest best bestScore)"

text \<open>
  \<open>matchReservoirToDam\<close>. The dam is \<open>None\<close> when it is \<open>null\<close> or \<open>undefined\<close>. The
  result is the best record with \<open>match_score\<close> set to
  \<open>Math.round(bestScore * 100) / 100\<close>, a double product, an exact rounding to an
  integer and a double quotient; spreading \<open>null\<close> gives a record with no other
  field.
\<close>

definition annotate :: "reservoirT option \<Rightarrow> rat \<Rightarrow> reservoirT" where
  "annotate best bestScore =
     (case best of None \<Rightarrow> emptyReservoir | Some b \<Rightarrow> b)
       \<lparr>match_score := Some (fl64 (of_int (mathRound (fl64 (bestScore * 100))) / 100))\<rparr>"

definition matchReservoirToDam ::
  "damT option \<Rightarrow> reservoirT list \<Rightarrow> rat \<Rightarrow> thrown + reservoirT option" where
  "matchReservoirToDam dam reservoirLevels minScore =
     (case dam of
        None \<Rightarrow> Inr None
      | Some d \<Rightarrow>
          if reservoirLevels = [] then Inr None
          else (case matchLoop d reservoirLevels None 0 of
                  Inl e \<Rightarrow> Inl e
                | Inr (best, bestScore) \<Rightarrow>
                    if bestScore < minScore then Inr None
                    else Inr (Some (annotate best bestScore))))"

text \<open>The default of \<open>minScore\<close>, the literal \<open>0.45\<close>.\<close>

definition defaultMinScore :: rat where
  "defaultMinScore = fl64 (45 / 100)"

text \<open>
  The combined score in the words of the specification: the name similarity of a
  location name and a record name is their token-set similarity, or the fixed score
  0.9 if that is greater and one normalized name is a substring of the other; the name
  similarity of a dam and a record is the greatest one over the name variants of the
  dam; the bonus 0.2 is added when the normalized regions are equal.
\<close>

definition spec_tokenSetSimilarity :: "string \<Rightarrow> string \<Rightarrow> rat" where
  "spec_tokenSetSimilarity a b =
     (if set (tokens a) = {} \<or> set (tokens b) = {} then 0
      else fl64 (of_nat (card (set (tokens a) \<inter> set (tokens b)))
                 / of_nat (card (set (tokens a) \<union> set (tokens b)))))"

definition spec_substringMatch :: "string \<Rightarrow> string \<Rightarrow> bool" where
  "spec_substringMatch a b =
     (normalizeText a \<noteq> [] \<and> normalizeText b \<noteq> []
      \<and> (includes_str (normalizeText b) (normalizeText a)
           \<or> includes_str (normalizeText a) (normalizeText b)))"

definition spec_variantSimilarity :: "string \<Rightarrow> string \<Rightarrow> rat" where
  "spec_variantSimilarity variant reservoirName =
     (if spec_substringMatch variant reservoirName
      then max (spec_tokenSetSimilarity variant reservoirName) (fl64 (9 / 10))
      else spec_tokenSetSimilarity variant reservoirName)"

definition spec_nameVariants :: "string \<Rightarrow> string list" where
  "spec_nameVariants damName =
     filter (\<lambda>n. n \<noteq> [])
       (damName # (case map_of DAM_ALIASES (toLowerCase damName) of None \<Rightarrow> [] | Some as \<Rightarrow> as))"

definition spec_nameSimilarity :: "damT \<Rightarrow> reservoirT \<Rightarrow> rat" where
  "spec_nameSimilarity dam reservoir =
     Max (insert 0 ((\<lambda>v. spec_variantSimilarity v (res_name reservoir))
                      ` set (spec_nameVariants (dam_name dam))))"

definition spec_regionBonus :: "damT \<Rightarrow> reservoirT \<Rightarrow> rat" where
  "spec_regionBonus dam reservoir =
     (if normalizeText (dam_state dam) \<noteq> []
         \<and> normalizeText (dam_state dam) = normalizeText (res_state reservoir)
      then fl64 (2 / 10) else 0)"

definition spec_combinedScore :: "damT \<Rightarrow> reservoirT \<Rightarrow> rat" where
  "spec_combinedScore dam reservoir =
     fl64 (spec_nameSimilarity dam reservoir + spec_regionBonus dam reservoir)"

text \<open>Three dams and two telemetry records, used as concrete inputs below.\<close>

definition exampleDam :: damT where
  "exampleDam =
     \<lparr>dam_id = ''D-07'', dam_name = ''Tehri Dam'', dam_state = ''Uttarakhand'',
      lat = 30.38, lon = 78.48\<rparr>"

definition exampleKoyna :: reservoirT where
  "exampleKoyna =
     \<lparr>res_name = ''Koyna Reservoir'', res_state = ''Maharashtra'', level_pct = Num 71,
      inflow = Undefined, outflow = Undefined, match_score = None\<rparr>"

definition exampleIndira :: reservoirT where
  "exampleIndira =
     \<lparr>res_name = ''Sagar Indira Canal Head'', res_state = ''Madhya Pradesh'',
      level_pct = Num 52, inflow = Undefined, outflow = Undefined, match_score = None\<rparr>"

definition exampleIndiraDam :: damT where
  "exampleIndiraDam =
     \<lparr>dam_id = ''D-11'', dam_name = ''Indira Sagar Dam'', dam_state = ''Madhya Pradesh'',
      lat = 22.28, lon = 76.47\<rparr>"

definition exampleConstructorDam :: damT where
  "exampleConstructorDam =
     \<lparr>dam_id = ''D-12'', dam_name = ''Constructor'', dam_state = ''Kerala'',
      lat = 9.84, lon = 76.97\<rparr>"

section \<open>Risk formula (src/analyticsEngine.js)\<close>

record rainSummaryT =
  precipitation_sum_24h_mm :: jsval
  precipitation_sum_72h_mm :: jsval
  precipitation_sum_7d_mm :: jsval
  max_hourly_precipitation_mm :: jsval

definition emptyRainSummary :: rainSummaryT where
  "emptyRainSummary =
     \<lparr>precipitation_sum_24h_mm = Undefined, precipitation_sum_72h_mm = Undefined,
      precipitation_sum_7d_mm = Undefined, max_hourly_precipitation_mm = Undefined\<rparr>"

text \<open>
  The argument object of \<open>calculateAdvancedRisk\<close>. \<open>rainSummary\<close> and
  \<open>reservoirContext\<close> are \<open>None\<close> when they are \<open>null\<close> or \<open>undefined\<close>; the state is
  the empty string when it is absent.
\<close>

record riskInputT =
  rainSummary :: "rainSummaryT option"
  rain72h :: jsval
  rain7d :: jsval
  earthquakesNearby :: jsval
  elevation :: jsval
  baselineAvgDaily :: jsval
  reservoirContext :: "reservoirT option"
  state :: string

definition normalizeReservoirLevel :: "jsval \<Rightarrow> real option" where
  "normalizeReservoirLevel levelPct =
     (case toNumber levelPct of
        None \<Rightarrow> None
      | Some lv \<Rightarrow>
          if lv \<ge> 0 \<and> lv \<le> 1 then Some (lv * 100)
          else if lv \<ge> 0 \<and> lv \<le> 100 then Some lv
          else None)"

definition levelStress :: "reservoirT \<Rightarrow> real option" where
  "levelStress rc =
     (case normalizeReservoirLevel (level_pct rc) of
        None \<Rightarrow> None
      | Some levelPct \<Rightarrow> Some (clamp ((levelPct - 60) * 2.5) 0 100))"

definition flowStress :: "reservoirT \<Rightarrow> real option" where
  "flowStress rc =
     (case (toNumber (inflow rc), toNumber (outflow rc)) of
        (Some i, Some out) \<Rightarrow>
          if out \<ge> 0
          then (let ratio = i / (out + 1 / 10 ^ 6) in Some (clamp ((ratio - 1) * 45 + 50) 0 100))
          else None
      | _ \<Rightarrow> None)"

definition reservoirStressIndex :: "reservoirT \<Rightarrow> int" where
  "reservoirStressIndex rc =
     (case (levelStress rc, flowStress rc) of
        (None, None) \<Rightarrow> 0
      | (Some ls, Some fs) \<Rightarrow> round (0.7 * ls + 0.3 * fs)
      | (Some ls, None) \<Rightarrow> round ls
      | (None, Some fs) \<Rightarrow> round fs)"

definition LANDSLIDE_PRONE_STATES :: "string list" where
  "LANDSLIDE_PRONE_STATES =
     [''kerala'', ''uttarakhand'', ''himachal pradesh'', ''assam'', ''tamil nadu'',
      ''maharashtra'', ''karnataka'', ''goa'', ''meghalaya'', ''arunachal pradesh'',
      ''mizoram'', ''nagaland'', ''manipur'', ''jammu and kashmir'', ''sikkim'',
      ''west bengal'']"

text \<open>
  The local constants of \<open>calculateAdvancedRisk\<close>, each as a function of the argument
  object, in the order of the source.
\<close>

definition rainSummaryOf :: "riskInputT \<Rightarrow> rainSummaryT" where
  "rainSummaryOf inp = (case rainSummary inp of None \<Rightarrow> emptyRainSummary | Some rs \<Rightarrow> rs)"

definition r24 :: "riskInputT \<Rightarrow> real" where
  "r24 inp = safeNum (precipitation_sum_24h_mm (rainSummaryOf inp)) 0"

definition r72 :: "riskInputT \<Rightarrow> real" where
  "r72 inp =
     safeNum (coalesce (coalesce (rain72h inp) (precipitation_sum_72h_mm (rainSummaryOf inp)))
                (Num (r24 inp))) 0"

definition r7 :: "riskInputT \<Rightarrow> real" where
  "r7 inp =
     safeNum (coalesce (coalesce (rain7d inp) (precipitation_sum_7d_mm (rainSummaryOf inp)))
                (Num (r72 inp))) 0"

definition peak :: "riskInputT \<Rightarrow> real" where
  "peak inp = safeNum (max_hourly_precipitation_mm (rainSummaryOf inp)) 0"

definition earthquakesNearbyNum :: "riskInputT \<Rightarrow> real" where
  "earthquakesNearbyNum inp = safeNum (earthquakesNearby inp) 0"

definition elevationNum :: "riskInputT \<Rightarrow> real option" where
  "elevationNum inp = toNumber (elevation inp)"

definition baselineAvgDailyNum :: "riskInputT \<Rightarrow> real option" where
  "baselineAvgDailyNum inp = toNumber (baselineAvgDaily inp)"

definition stateLower :: "riskInputT \<Rightarrow> string" where
  "stateLower inp = toLowerCase (state inp)"

definition reservoirContextOf :: "riskInputT \<Rightarrow> reservoirT" where
  "reservoirContextOf inp =
     (case reservoirContext inp of None \<Rightarrow> emptyReservoir | Some rc \<Rightarrow> rc)"

definition intensityFlood :: "riskInputT \<Rightarrow> real" where
  "intensityFlood inp = clamp ((r24 inp / 1.25) + (peak inp * 2.8)) 0 100"

definition persistence :: "riskInputT \<Rightarrow> real" where
  "persistence inp = clamp (r72 inp / 2.0) 0 100"

definition saturation :: "riskInputT \<Rightarrow> real" where
  "saturation inp = clamp (r7 inp / 3.6) 0 100"

definition seismic :: "riskInputT \<Rightarrow> real" where
  "seismic inp = clamp (earthquakesNearbyNum inp * 18) 0 100"

definition anomalyRatio :: "riskInputT \<Rightarrow> real" where
  "anomalyRatio inp =
     (case baselineAvgDailyNum inp of
        None \<Rightarrow> 1
      | Some b \<Rightarrow> if b \<noteq> 0 \<and> b > 0 then (r24 inp / 24) / b else 1)"

definition anomaly :: "riskInputT \<Rightarrow> real" where
  "anomaly inp = clamp ((anomalyRatio inp - 1) * 50 + 50) 0 100"

definition reservoirStress :: "riskInputT \<Rightarrow> int" where
  "reservoirStress inp = reservoirStressIndex (reservoirContextOf inp)"

definition lowlandFactor :: "riskInputT \<Rightarrow> real" where
  "lowlandFactor inp =
     (case elevationNum inp of
        None \<Rightarrow> 0
      | Some e \<Rightarrow> if e < 300 then 12 else if e < 600 then 6 else 0)"

definition floodLinear :: "riskInputT \<Rightarrow> real" where
  "floodLinear inp =
     0.30 * intensityFlood inp +
     0.18 * persistence inp +
     0.14 * saturation inp +
     0.14 * real_of_int (reservoirStress inp) +
     0.10 * anomaly inp +
     0.08 * seismic inp +
     0.06 * lowlandFactor inp"

definition floodScore :: "riskInputT \<Rightarrow> int" where
  "floodScore inp = round (clamp (sigmoidTo100 (floodLinear inp) 50 0.09) 0 100)"

definition intensityLand :: "riskInputT \<Rightarrow> real" where
  "intensityLand inp = clamp ((r24 inp / 1.15) + (peak inp * 3.1)) 0 100"

definition durationLand :: "riskInputT \<Rightarrow> real" where
  "durationLand inp = clamp (r72 inp / 1.8) 0 100"

definition seismicLand :: "riskInputT \<Rightarrow> real" where
  "seismicLand inp = clamp (earthquakesNearbyNum inp * 20) 0 100"

definition terrain :: "riskInputT \<Rightarrow> real" where
  "terrain inp = (case elevationNum inp of None \<Rightarrow> 50 | Some e \<Rightarrow> clamp (e / 30) 0 100)"

definition proneStateBoost :: "riskInputT \<Rightarrow> real" where
  "proneStateBoost inp = (if stateLower inp \<in> set LANDSLIDE_PRONE_STATES then 12 else 0)"

definition spillSlopeStress :: "riskInputT \<Rightarrow> real" where
  "spillSlopeStress inp = clamp (real_of_int (reservoirStress inp) * 0.55) 0 100"

definition landslideLinear :: "riskInputT \<Rightarrow> real" where
  "landslideLinear inp =
     0.27 * intensityLand inp +
     0.24 * durationLand inp +
     0.16 * terrain inp +
     0.10 * seismicLand inp +
     0.10 * anomaly inp +
     0.07 * spillSlopeStress inp +
     0.06 * proneStateBoost inp"

definition landslideScore :: "riskInputT \<Rightarrow> int" where
  "landslideScore inp = round (clamp (sigmoidTo100 (landslideLinear inp) 48 0.085) 0 100)"

definition featuresAvailable :: "riskInputT \<Rightarrow> bool list" where
  "featuresAvailable inp =
     [r24 inp > 0,
      r72 inp > 0,
      r7 inp > 0,
      peak inp \<ge> 0,
      earthquakesNearbyNum inp \<ge> 0,
      elevationNum inp \<noteq> None,
      baselineAvgDailyNum inp \<noteq> None,
      normalizeReservoirLevel (level_pct (reservoirContextOf inp)) \<noteq> None]"

definition completeness :: "riskInputT \<Rightarrow> real" where
  "completeness inp =
     real (length (filter (\<lambda>b. b) (featuresAvailable inp))) / real (length (featuresAvailable inp))"

definition sourceDiversity :: "riskInputT \<Rightarrow> real" where
  "sourceDiversity inp =
     3 + (if baselineAvgDailyNum inp \<noteq> None then 1 else 0)
       + (if normalizeReservoirLevel (level_pct (reservoirContextOf inp)) \<noteq> None then 1 else 0)"

definition confidenceOf :: "riskInputT \<Rightarrow> int" where
  "confidenceOf inp = round (clamp (45 + completeness inp * 40 + sourceDiversity inp * 3) 0 100)"

record floodComponentsT =
  fl_intensity :: int
  fl_persistence :: int
  fl_saturation :: int
  fl_reservoir_stress :: int
  fl_anomaly :: int
  fl_seismic :: int
  fl_lowland_factor :: int

record landslideComponentsT =
  ls_intensity :: int
  ls_duration :: int
  ls_terrain :: int
  ls_seismic :: int
  ls_anomaly :: int
  ls_reservoir_spill_stress :: int
  ls_prone_state_boost :: int

record componentsT =
  flood :: floodComponentsT
  landslide :: landslideComponentsT

record riskResultT =
  flood_score :: int
  landslide_score :: int
  confidence :: int
  components :: componentsT

definition calculateAdvancedRisk :: "riskInputT \<Rightarrow> riskResultT" where
  "calculateAdvancedRisk inp =
     \<lparr>flood_score = floodScore inp,
      landslide_score = landslideScore inp,
      confidence = confidenceOf inp,
      components =
        \<lparr>flood =
           \<lparr>fl_intensity = round (intensityFlood inp),
            fl_persistence = round (persistence inp),
            fl_saturation = round (saturation inp),
            fl_reservoir_stress = round (real_of_int (reservoirStress inp)),
            fl_anomaly = round (anomaly inp),
            fl_seismic = round (seismic inp),
            fl_lowland_factor = round (lowlandFactor inp)\<rparr>,
         landslide =
           \<lparr>ls_intensity = round (intensityLand inp),
            ls_duration = round (durationLand inp),
            ls_terrain = round (terrain inp),
            ls_seismic = round (seismicLand inp),
            ls_anomaly = round (anomaly inp),
            ls_reservoir_spill_stress = round (spillSlopeStress inp),
            ls_prone_state_boost = round (proneStateBoost inp)\<rparr>\<rparr>\<rparr>"

text \<open>The bundle with nothing in it, \<open>{}\<close>.\<close>

definition emptyInput :: riskInputT where
  "emptyInput =
     \<lparr>rainSummary = None, rain72h = Undefined, rain7d = Undefined,
      earthquakesNearby = Undefined, elevation = Undefined, baselineAvgDaily = Undefined,
      reservoirContext = None, state = []\<rparr>"

text \<open>Replacing the 24-hour rainfall sum of a bundle and nothing else.\<close>

definition withRain24h :: "real \<Rightarrow> riskInputT \<Rightarrow> riskInputT" where
  "withRain24h x inp =
     inp\<lparr>rainSummary := Some ((rainSummaryOf inp)\<lparr>precipitation_sum_24h_mm := Num x\<rparr>)\<rparr>"

text \<open>The range of every score and sub-index.\<close>

definition in0_100 :: "int \<Rightarrow> bool" where
  "in0_100 v \<longleftrightarrow> 0 \<le> v \<and> v \<le> 100"


text \<open>The bundle with zero rainfall sums, zero nearby quakes and nothing else.\<close>

definition zeroRainInput :: riskInputT where
  "zeroRainInput =
     \<lparr>rainSummary =
        Some \<lparr>precipitation_sum_24h_mm = Num 0, precipitation_sum_72h_mm = Num 0,
              precipitation_sum_7d_mm = Num 0, max_hourly_precipitation_mm = Num 0\<rparr>,
      rain72h = Undefined, rain7d = Undefined, earthquakesNearby = Num 0,
      elevation = Undefined, baselineAvgDaily = Undefined, reservoirContext = None,
      state = []\<rparr>"

section \<open>Risk check (src/riskEngine.js)\<close>

record earthquakeT =
  magnitude :: real
  latitude :: real
  longitude :: real

text \<open>
  One element of the rainfall data, with the fields that the risk check reads and the
  two that tell a fallback record from a fetched one.
\<close>

record rainT =
  summary :: "rainSummaryT option"
  elevation_m :: jsval
  rain_error :: "messageT option"
  rain_source :: string

record fetchedT =
  rainfallData :: "rainT list"
  earthquakes :: "earthquakeT list"
  reservoirLevels :: "reservoirT list"

subsection \<open>The collectors\<close>

text \<open>
  The collectors (\<open>fetchRainfall\<close>, \<open>fetchRecentEarthquakes\<close>,
  \<open>fetchCombinedWaterLevels\<close>) wrap their requests in \<open>try\<close> blocks. What such a block
  does with a response is not modelled: the outcome of the body of a \<open>try\<close> is given,
  either the value that the body builds from the response (\<open>Inr\<close>) or the value thrown
  inside it, by \<open>fetch\<close>, by the check of the status or by the parser (\<open>Inl\<close>).
  For the NWDP source the value may also come from the collector's cache. What the
  collectors do with a thrown value is the code of the source. Records have string
  names here; a record whose name is not a string, on which the merge of the
  reservoir rows would throw, is outside the model.
\<close>

record networkT =
  rainfallFirst :: "damT \<Rightarrow> thrown + rainT"
  rainfallRetry :: "damT \<Rightarrow> thrown + rainT"
  earthquakeQuery :: "thrown + earthquakeT list"
  nwdpQuery :: "thrown + reservoirT list"
  reservoirQuery :: "thrown + reservoirT list"

text \<open>Whether the two reservoir sources are enabled and have a base URL.\<close>

record sourcesT =
  nwdp_enabled :: bool
  reservoir_enabled :: bool

definition zeroSummary :: rainSummaryT where
  "zeroSummary =
     \<lparr>precipitation_sum_24h_mm = Num 0, precipitation_sum_72h_mm = Num 0,
      precipitation_sum_7d_mm = Num 0, max_hourly_precipitation_mm = Num 0\<rparr>"

text \<open>
  \<open>fetchLocation\<close>: the request, one retry, and then the fallback record, which has
  a zero summary, no elevation and the message of the first error. Reading that
  message throws when the first thrown value is \<open>null\<close> or \<open>undefined\<close>.
\<close>

definition fetchLocation :: "networkT \<Rightarrow> damT \<Rightarrow> thrown + rainT" where
  "fetchLocation net loc =
     (case rainfallFirst net loc of
        Inr r \<Rightarrow> Inr r
      | Inl err \<Rightarrow>
          (case rainfallRetry net loc of
             Inr r2 \<Rightarrow> Inr r2
           | Inl _ \<Rightarrow>
               (case messageOf err of
                  Inl e \<Rightarrow> Inl e
                | Inr m \<Rightarrow>
                    Inr \<lparr>summary = Some zeroSummary, elevation_m = Undefined,
                         rain_error = Some m, rain_source = ''Open-Meteo (fallback)''\<rparr>)))"

text \<open>
  \<open>fetchRainfall\<close>: the locations are fetched in chunks with \<open>Promise.all\<close>, which
  keeps their order and rejects when one of them rejects. Every rejection of
  \<open>fetchLocation\<close> is the \<open>TypeError\<close> above, so it does not matter which one is
  reported.
\<close>

fun fetchRainfall :: "networkT \<Rightarrow> damT list \<Rightarrow> thrown + rainT list" where
  "fetchRainfall net [] = Inr []"
| "fetchRainfall net (loc # rest) =
     (case fetchLocation net loc of
        Inl e \<Rightarrow> Inl e
      | Inr r \<Rightarrow>
          (case fetchRainfall net rest of Inl e \<Rightarrow> Inl e | Inr rs \<Rightarrow> Inr (r # rs)))"

definition fetchRecentEarthquakes :: "networkT \<Rightarrow> earthquakeT list" where
  "fetchRecentEarthquakes net = (case earthquakeQuery net of Inl _ \<Rightarrow> [] | Inr es \<Rightarrow> es)"

definition fetchNwdpReservoirLevels :: "sourcesT \<Rightarrow> networkT \<Rightarrow> reservoirT list" where
  "fetchNwdpReservoirLevels cfg net =
     (if \<not> nwdp_enabled cfg then []
      else (case nwdpQuery net of Inl _ \<Rightarrow> [] | Inr rows \<Rightarrow> rows))"

definition fetchReservoirLevels :: "sourcesT \<Rightarrow> networkT \<Rightarrow> reservoirT list" where
  "fetchReservoirLevels cfg net =
     (if \<not> reservoir_enabled cfg then []
      else (case reservoirQuery net of Inl _ \<Rightarrow> [] | Inr rows \<Rightarrow> rows))"

text \<open>\<open>String.prototype.trim\<close> on ASCII white space.\<close>

definition trim :: "string \<Rightarrow> string" where
  "trim s = rev (dropWhile isSpace (rev (dropWhile isSpace s)))"

text \<open>
  The merge of \<open>fetchCombinedWaterLevels\<close>: of the rows with the same trimmed name in
  lower case the first is kept, and a row with an empty name is dropped. \<open>seen\<close> holds
  the keys of the map.
\<close>

fun dedupRows :: "string list \<Rightarrow> reservoirT list \<Rightarrow> reservoirT list" where
  "dedupRows seen [] = []"
| "dedupRows seen (row # rest) =
     (let key = toLowerCase (trim (res_name row))
      in if key = [] \<or> key \<in> set seen then dedupRows seen rest
         else row # dedupRows (key # seen) rest)"

definition fetchCombinedWaterLevels :: "sourcesT \<Rightarrow> networkT \<Rightarrow> reservoirT list" where
  "fetchCombinedWaterLevels cfg net =
     (let nwdpRows = fetchNwdpReservoirLevels cfg net;
          reservoirRows = fetchReservoirLevels cfg net
      in dedupRows [] (nwdpRows @ reservoirRows))"

subsection \<open>The assessment\<close>

definition generateAlertMessage :: "level \<Rightarrow> string \<Rightarrow> string \<Rightarrow> string" where
  "generateAlertMessage alertLevel floodScoreText landslideScoreText =
     (if alertLevel = LOW then ''No significant disaster risk. Continue normal monitoring.''
      else if alertLevel = MEDIUM
      then ''Moderate risk: Flood '' @ floodScoreText @ '', Landslide '' @ landslideScoreText
             @ ''. Stay alert and monitor updates.''
      else ''High disaster risk: Flood '' @ floodScoreText @ '', Landslide ''
             @ landslideScoreText
             @ ''. Take preventive actions and follow authorities.'')"

definition generateRecommendations :: "level \<Rightarrow> string list" where
  "generateRecommendations alertLevel =
     (if alertLevel = HIGH
      then [''Evacuate low-lying and landslide-prone areas if advised'',
            ''Avoid crossing flooded roads and streams'',
            ''Follow instructions from disaster management authorities'',
            ''Keep emergency kit ready'']
      else if alertLevel = MEDIUM
      then [''Stay away from riverbanks and landslide-prone slopes'',
            ''Monitor weather and official advisories'',
            ''Be prepared to move to safer locations if conditions worsen'']
      else [''No special action required'', ''Continue normal activities'',
            ''Stay informed through official channels''])"

text \<open>The decimal text of an integer, as a template literal prints it.\<close>

fun showNat :: "nat \<Rightarrow> string" where
  "showNat n =
     (if n < 10 then [''0123456789'' ! n]
      else showNat (n div 10) @ [''0123456789'' ! (n mod 10)])"

declare showNat.simps [simp del]

definition showInt :: "int \<Rightarrow> string" where
  "showInt i = (if i < 0 then CHR ''-'' # showNat (nat (- i)) else showNat (nat i))"

text \<open>\<open>RISK_\<close> followed by the first 15 characters of the time stamp without \<open>-\<close>, \<open>:\<close>
  and \<open>T\<close>.\<close>

definition assessmentId :: "string \<Rightarrow> string" where
  "assessmentId ts = ''RISK_'' @ take 15 (filter (\<lambda>c. c \<notin> set ''-:T'') ts)"

text \<open>
  The locations: the first 25 dams, or, without dams, the locations of the
  configuration, or, without those, Chennai.
\<close>

definition chennai :: damT where
  "chennai =
     \<lparr>dam_id = [], dam_name = ''Chennai'', dam_state = [], lat = 13.0827, lon = 80.2707\<rparr>"

definition locationsOf :: "damT list \<Rightarrow> damT list option \<Rightarrow> damT list" where
  "locationsOf dams configLocations =
     (if dams \<noteq> [] then take 25 dams
      else (case configLocations of None \<Rightarrow> [chennai] | Some ls \<Rightarrow> ls))"

definition significantEqOf :: "earthquakeT list \<Rightarrow> earthquakeT list" where
  "significantEqOf eqs = filter (\<lambda>e. magnitude e \<ge> 4.5) eqs"

definition eqNear :: "earthquakeT list \<Rightarrow> real \<Rightarrow> real \<Rightarrow> nat" where
  "eqNear significantEq la lo =
     length (filter (\<lambda>e. \<bar>latitude e - la\<bar> \<le> 2 \<and> \<bar>longitude e - lo\<bar> \<le> 2) significantEq)"

text \<open>\<open>locations[i]\<close>, which is \<open>undefined\<close> beyond the end of the array.\<close>

definition nthOpt :: "'a list \<Rightarrow> nat \<Rightarrow> 'a option" where
  "nthOpt xs i = (if i < length xs then Some (xs ! i) else None)"

text \<open>
  The argument that the loop of \<open>runRiskCheck\<close> passes to \<open>calculateAdvancedRisk\<close> for
  one location, given the reservoir that the matcher returned for it; the baseline is
  the literal \<open>null\<close>.
\<close>

definition riskCheckInput ::
  "damT option \<Rightarrow> rainT \<Rightarrow> rainSummaryT \<Rightarrow> earthquakeT list \<Rightarrow> reservoirT option
     \<Rightarrow> riskInputT" where
  "riskCheckInput dam rain sm significantEq reservoir =
     (let eq = (case dam of None \<Rightarrow> 0 | Some d \<Rightarrow> eqNear significantEq (lat d) (lon d))
      in \<lparr>rainSummary = Some sm,
          rain72h = precipitation_sum_72h_mm sm,
          rain7d = precipitation_sum_7d_mm sm,
          earthquakesNearby = Num (real eq),
          elevation = elevation_m rain,
          baselineAvgDaily = Null,
          reservoirContext = reservoir,
          state = (case dam of None \<Rightarrow> [] | Some d \<Rightarrow> dam_state d)\<rparr>)"

text \<open>\<open>dam ? matchReservoirToDam(dam, reservoirLevels) : null\<close>.\<close>

definition riskCheckReservoir :: "damT option \<Rightarrow> reservoirT list \<Rightarrow> thrown + reservoirT option" where
  "riskCheckReservoir dam reservoirs =
     (case dam of
        None \<Rightarrow> Inr None
      | Some d \<Rightarrow> matchReservoirToDam (Some d) reservoirs defaultMinScore)"

record riskAccT =
  floodSum :: int
  landslideSum :: int
  confidenceSum :: int
  count :: nat
  componentTotals :: componentsT

definition zeroComponents :: componentsT where
  "zeroComponents =
     \<lparr>flood = \<lparr>fl_intensity = 0, fl_persistence = 0, fl_saturation = 0,
               fl_reservoir_stress = 0, fl_anomaly = 0, fl_seismic = 0, fl_lowland_factor = 0\<rparr>,
      landslide = \<lparr>ls_intensity = 0, ls_duration = 0, ls_terrain = 0, ls_seismic = 0,
                   ls_anomaly = 0, ls_reservoir_spill_stress = 0, ls_prone_state_boost = 0\<rparr>\<rparr>"

definition initialAcc :: riskAccT where
  "initialAcc =
     \<lparr>floodSum = 0, landslideSum = 0, confidenceSum = 0, count = 0,
      componentTotals = zeroComponents\<rparr>"

definition addComponents :: "componentsT \<Rightarrow> componentsT \<Rightarrow> componentsT" where
  "addComponents t c =
     \<lparr>flood =
        \<lparr>fl_intensity = fl_intensity (flood t) + fl_intensity (flood c),
         fl_persistence = fl_persistence (flood t) + fl_persistence (flood c),
         fl_saturation = fl_saturation (flood t) + fl_saturation (flood c),
         fl_reservoir_stress = fl_reservoir_stress (flood t) + fl_reservoir_stress (flood c),
         fl_anomaly = fl_anomaly (flood t) + fl_anomaly (flood c),
         fl_seismic = fl_seismic (flood t) + fl_seismic (flood c),
         fl_lowland_factor = fl_lowland_factor (flood t) + fl_lowland_factor (flood c)\<rparr>,
      landslide =
        \<lparr>ls_intensity = ls_intensity (landslide t) + ls_intensity (landslide c),
         ls_duration = ls_duration (landslide t) + ls_duration (landslide c),
         ls_terrain = ls_terrain (landslide t) + ls_terrain (landslide c),
         ls_seismic = ls_seismic (landslide t) + ls_seismic (landslide c),
         ls_anomaly = ls_anomaly (landslide t) + ls_anomaly (landslide c),
         ls_reservoir_spill_stress =
           ls_reservoir_spill_stress (landslide t) + ls_reservoir_spill_stress (landslide c),
         ls_prone_state_boost =
           ls_prone_state_boost (landslide t) + ls_prone_state_boost (landslide c)\<rparr>\<rparr>"

definition addResult :: "riskAccT \<Rightarrow> riskResultT \<Rightarrow> riskAccT" where
  "addResult acc advanced =
     \<lparr>floodSum = floodSum acc + flood_score advanced,
      landslideSum = landslideSum acc + landslide_score advanced,
      confidenceSum = confidenceSum acc + confidence advanced,
      count = count acc + 1,
      componentTotals = addComponents (componentTotals acc) (components advanced)\<rparr>"

text \<open>
  The loop over the rainfall data, from index \<open>i\<close> on: an element without a summary is
  skipped, and a throw of the matcher ends the loop and the function.
\<close>

fun riskCheckLoop ::
  "damT list \<Rightarrow> earthquakeT list \<Rightarrow> reservoirT list \<Rightarrow> nat \<Rightarrow> rainT list \<Rightarrow> riskAccT
     \<Rightarrow> thrown + riskAccT" where
  "riskCheckLoop locations significantEq reservoirs i [] acc = Inr acc"
| "riskCheckLoop locations significantEq reservoirs i (rain # rest) acc =
     (case summary rain of
        None \<Rightarrow> riskCheckLoop locations significantEq reservoirs (i + 1) rest acc
      | Some sm \<Rightarrow>
          (case riskCheckReservoir (nthOpt locations i) reservoirs of
             Inl e \<Rightarrow> Inl e
           | Inr reservoir \<Rightarrow>
               riskCheckLoop locations significantEq reservoirs (i + 1) rest
                 (addResult acc
                    (calculateAdvancedRisk
                       (riskCheckInput (nthOpt locations i) rain sm significantEq reservoir)))))"

text \<open>\<open>count ? Math.round(total / count) : 0\<close>.\<close>

definition average :: "int \<Rightarrow> nat \<Rightarrow> int" where
  "average tot n = (if n \<noteq> 0 then round (real_of_int tot / real n) else 0)"

definition averageComponents :: "componentsT \<Rightarrow> nat \<Rightarrow> componentsT" where
  "averageComponents t n =
     \<lparr>flood =
        \<lparr>fl_intensity = average (fl_intensity (flood t)) n,
         fl_persistence = average (fl_persistence (flood t)) n,
         fl_saturation = average (fl_saturation (flood t)) n,
         fl_reservoir_stress = average (fl_reservoir_stress (flood t)) n,
         fl_anomaly = average (fl_anomaly (flood t)) n,
         fl_seismic = average (fl_seismic (flood t)) n,
         fl_lowland_factor = average (fl_lowland_factor (flood t)) n\<rparr>,
      landslide =
        \<lparr>ls_intensity = average (ls_intensity (landslide t)) n,
         ls_duration = average (ls_duration (landslide t)) n,
         ls_terrain = average (ls_terrain (landslide t)) n,
         ls_seismic = average (ls_seismic (landslide t)) n,
         ls_anomaly = average (ls_anomaly (landslide t)) n,
         ls_reservoir_spill_stress = average (ls_reservoir_spill_stress (landslide t)) n,
         ls_prone_state_boost = average (ls_prone_state_boost (landslide t)) n\<rparr>\<rparr>"

record diagnosticsT =
  diag_confidence :: int
  averaged_components :: componentsT
  diag_notes :: "string list"

record dataSourcesT =
  src_rainfall :: string
  src_earthquake :: string
  src_reservoir :: string

record summaryCountsT =
  rainfall_locations :: nat
  earthquake_count :: nat
  reservoir_count :: nat

text \<open>
  The assessment. The fields that the degraded assessment does not have are optional;
  \<open>error\<close> is present only on the degraded one.
\<close>

record assessmentT =
  assessment_id :: string
  timestamp :: string
  success :: bool
  error :: "messageT option"
  flood_risk_score :: int
  landslide_risk_score :: int
  flood_risk_level :: "level option"
  landslide_risk_level :: "level option"
  overall_alert_level :: level
  alert_message :: string
  recommendations :: "string list"
  data_sources :: "dataSourcesT option"
  assessment_summary :: "summaryCountsT option"
  model_diagnostics :: "diagnosticsT option"
  system_status :: "string option"

text \<open>
  The \<open>try\<close> block of \<open>runRiskCheck\<close>: the rainfall and the quakes are awaited
  together, then the reservoir levels. Only \<open>fetchRainfall\<close> can reject.
\<close>

definition fetchBlock :: "sourcesT \<Rightarrow> networkT \<Rightarrow> damT list \<Rightarrow> thrown + fetchedT" where
  "fetchBlock cfg net locations =
     (case fetchRainfall net locations of
        Inl e \<Rightarrow> Inl e
      | Inr rd \<Rightarrow>
          Inr \<lparr>rainfallData = rd,
               earthquakes = fetchRecentEarthquakes net,
               reservoirLevels = fetchCombinedWaterLevels cfg net\<rparr>)"

text \<open>
  \<open>runRiskCheck\<close> after the \<open>try\<close> block, whose outcome is the last argument: the
  \<open>catch\<close> turns a thrown value into the degraded assessment, reading its \<open>message\<close>;
  otherwise the locations are scored and averaged. \<open>getLevel\<close> ignores its
  thresholds and is \<open>riskLevel\<close>. An exception that leaves the function is \<open>Inl\<close>.
\<close>

definition riskCheckBody ::
  "string \<Rightarrow> damT list \<Rightarrow> thrown + fetchedT \<Rightarrow> thrown + assessmentT" where
  "riskCheckBody stamp locations fetched =
     (case fetched of
        Inl e \<Rightarrow>
          (case messageOf e of
             Inl e' \<Rightarrow> Inl e'
           | Inr msg \<Rightarrow>
               Inr \<lparr>assessment_id = assessmentId stamp,
                    timestamp = stamp,
                    success = False,
                    error = Some msg,
                    flood_risk_score = 0,
                    landslide_risk_score = 0,
                    flood_risk_level = None,
                    landslide_risk_level = None,
                    overall_alert_level = LOW,
                    alert_message = ''Data fetch failed. Retry later.'',
                    recommendations = [''Retry run check or check API connectivity.''],
                    data_sources = None,
                    assessment_summary = None,
                    model_diagnostics = None,
                    system_status = None\<rparr>)
      | Inr d \<Rightarrow>
          (case riskCheckLoop locations (significantEqOf (earthquakes d)) (reservoirLevels d) 0
                  (rainfallData d) initialAcc of
             Inl e \<Rightarrow> Inl e
           | Inr acc \<Rightarrow>
               (let floodScoreAvg = average (floodSum acc) (count acc);
                    landslideScoreAvg = average (landslideSum acc) (count acc);
                    modelConfidence = average (confidenceSum acc) (count acc);
                    floodLevel = riskLevel floodScoreAvg;
                    landslideLevel = riskLevel landslideScoreAvg;
                    overallScore = max floodScoreAvg landslideScoreAvg;
                    alertLevel = riskLevel overallScore
                in Inr \<lparr>assessment_id = assessmentId stamp,
                        timestamp = stamp,
                        success = True,
                        error = None,
                        flood_risk_score = floodScoreAvg,
                        landslide_risk_score = landslideScoreAvg,
                        flood_risk_level = Some floodLevel,
                        landslide_risk_level = Some landslideLevel,
                        overall_alert_level = alertLevel,
                        alert_message =
                          generateAlertMessage alertLevel (showInt floodScoreAvg)
                            (showInt landslideScoreAvg),
                        recommendations = generateRecommendations alertLevel,
                        data_sources =
                          Some \<lparr>src_rainfall = ''Open-Meteo'', src_earthquake = ''USGS'',
                                src_reservoir =
                                  (if reservoirLevels d \<noteq> []
                                   then ''NWDP/Configured Open Source API''
                                   else ''Not configured'')\<rparr>,
                        assessment_summary =
                          Some \<lparr>rainfall_locations = length (rainfallData d),
                                earthquake_count = length (earthquakes d),
                                reservoir_count = length (reservoirLevels d)\<rparr>,
                        model_diagnostics =
                          Some \<lparr>diag_confidence = modelConfidence,
                                averaged_components =
                                  averageComponents (componentTotals acc) (count acc),
                                diag_notes =
                                  [''Scores use nonlinear fusion of rainfall intensity/persistence/saturation, seismic signal, terrain, and NWDP reservoir stress when matched.'',
                                   ''Confidence is based on feature completeness and source availability; it is not a historical accuracy metric.'']\<rparr>,
                        system_status = Some stamp\<rparr>)))"

text \<open>\<open>runRiskCheck\<close>: the clock reading, the dams and the network are arguments.\<close>

definition runRiskCheck ::
  "string \<Rightarrow> damT list \<Rightarrow> damT list option \<Rightarrow> sourcesT \<Rightarrow> networkT
     \<Rightarrow> thrown + assessmentT" where
  "runRiskCheck stamp dams configLocations cfg net =
     (let locations = locationsOf dams configLocations
      in riskCheckBody stamp locations (fetchBlock cfg net locations))"






text \<open>Fetched data and runs of the risk check used as concrete inputs below.\<close>

definition exampleFetched :: fetchedT where
  "exampleFetched =
     \<lparr>rainfallData =
        [\<lparr>summary =
            Some \<lparr>precipitation_sum_24h_mm = Num 182.4, precipitation_sum_72h_mm = Num 301,
                  precipitation_sum_7d_mm = Num 355.5, max_hourly_precipitation_mm = Num 31.2\<rparr>,
          elevation_m = Num 190, rain_error = None, rain_source = ''Open-Meteo''\<rparr>],
      earthquakes = [\<lparr>magnitude = 5.1, latitude = 22.9, longitude = 77.1\<rparr>],
      reservoirLevels = [exampleKoyna, exampleIndira]\<rparr>"

definition exampleStamp :: string where
  "exampleStamp = ''2026-11-03T10:47:12.345Z''"



section \<open>High-risk zones of the batch analytics (src/analyticsEngine.js)\<close>

text \<open>
  The optional calibration of the configuration; a multiplier is present when its
  \<open>typeof\<close> is \<open>number\<close>.
\<close>

record calibrationT =
  flood_multiplier :: "real option"
  landslide_multiplier :: "real option"

definition calibrated :: "real option \<Rightarrow> int \<Rightarrow> int" where
  "calibrated multiplier sc =
     (case multiplier of
        None \<Rightarrow> sc
      | Some m \<Rightarrow> round (min 100 (real_of_int sc * m)))"

text \<open>
  The fields of an element of \<open>damResults\<close> that the zone list and the state rollup
  read. The scores are those of \<open>calculateAdvancedRisk\<close> (or 0 without a rainfall
  summary) after calibration; the levels are \<open>riskLevel\<close> of the scores.
\<close>

record damResultT =
  dr_name :: string
  dr_state :: string
  dr_flood_risk_score :: int
  dr_landslide_risk_score :: int
  dr_flood_risk_level :: level
  dr_landslide_risk_level :: level

definition damResult :: "damT \<Rightarrow> riskResultT option \<Rightarrow> calibrationT option \<Rightarrow> damResultT" where
  "damResult dam advanced cal =
     (let advFlood = (case advanced of None \<Rightarrow> 0 | Some a \<Rightarrow> flood_score a);
          advLandslide = (case advanced of None \<Rightarrow> 0 | Some a \<Rightarrow> landslide_score a);
          floodSc = (case cal of None \<Rightarrow> advFlood
                     | Some c \<Rightarrow> calibrated (flood_multiplier c) advFlood);
          landslideSc = (case cal of None \<Rightarrow> advLandslide
                         | Some c \<Rightarrow> calibrated (landslide_multiplier c) advLandslide)
      in \<lparr>dr_name = dam_name dam,
          dr_state = dam_state dam,
          dr_flood_risk_score = floodSc,
          dr_landslide_risk_score = landslideSc,
          dr_flood_risk_level = riskLevel floodSc,
          dr_landslide_risk_level = riskLevel landslideSc\<rparr>)"

text \<open>The state rollup: the dams are grouped under \<open>dam.state || 'Unknown'\<close>.\<close>

definition stateKey :: "damResultT \<Rightarrow> string" where
  "stateKey d = (if dr_state d = [] then ''Unknown'' else dr_state d)"

definition stateAverage :: "(damResultT \<Rightarrow> int) \<Rightarrow> damResultT list \<Rightarrow> string \<Rightarrow> int" where
  "stateAverage scoreOf damResults st =
     (let s = filter (\<lambda>d. stateKey d = st) damResults;
          n = (if length s = 0 then 1 else length s)
      in round (real_of_int (sum_list (map scoreOf s)) / real n))"

definition state_flood_level :: "damResultT list \<Rightarrow> string \<Rightarrow> level" where
  "state_flood_level damResults st = riskLevel (stateAverage dr_flood_risk_score damResults st)"

definition state_landslide_level :: "damResultT list \<Rightarrow> string \<Rightarrow> level" where
  "state_landslide_level damResults st =
     riskLevel (stateAverage dr_landslide_risk_score damResults st)"

record zoneT =
  zone_dam :: string
  zone_state :: string
  flood_risk :: int
  landslide_risk :: int
  flood_level :: level
  landslide_level :: level
  zone_severity :: level

definition toZone :: "damResultT \<Rightarrow> zoneT" where
  "toZone d =
     \<lparr>zone_dam = dr_name d,
      zone_state = dr_state d,
      flood_risk = dr_flood_risk_score d,
      landslide_risk = dr_landslide_risk_score d,
      flood_level = dr_flood_risk_level d,
      landslide_level = dr_landslide_risk_level d,
      zone_severity =
        (if dr_flood_risk_level d = HIGH \<or> dr_landslide_risk_level d = HIGH then HIGH
         else MEDIUM)\<rparr>"

text \<open>The comparator passed to \<open>sort\<close>.\<close>

definition zoneCompare :: "zoneT \<Rightarrow> zoneT \<Rightarrow> int" where
  "zoneCompare a b =
     (if zone_severity a = HIGH \<and> zone_severity b \<noteq> HIGH then - 1
      else if zone_severity b = HIGH \<and> zone_severity a \<noteq> HIGH then 1
      else max (flood_risk b) (landslide_risk b) - max (flood_risk a) (landslide_risk a))"

text \<open>
  \<open>Array.prototype.sort\<close> with a comparator: the sort is stable, so with a consistent
  comparator its result is the one of a stable insertion sort, in which an element is
  placed before the first element that it does not have to follow.
\<close>

fun insertBy :: "('a \<Rightarrow> 'a \<Rightarrow> int) \<Rightarrow> 'a \<Rightarrow> 'a list \<Rightarrow> 'a list" where
  "insertBy cmp x [] = [x]"
| "insertBy cmp x (y # ys) = (if cmp x y \<le> 0 then x # y # ys else y # insertBy cmp x ys)"

fun sortBy :: "('a \<Rightarrow> 'a \<Rightarrow> int) \<Rightarrow> 'a list \<Rightarrow> 'a list" where
  "sortBy cmp [] = []"
| "sortBy cmp (x # xs) = insertBy cmp x (sortBy cmp xs)"

definition high_risk_zones :: "damResultT list \<Rightarrow> zoneT list" where
  "high_risk_zones damResults =
     sortBy zoneCompare
       (map toZone
          (filter (\<lambda>d. dr_flood_risk_level d \<noteq> LOW \<or> dr_landslide_risk_level d \<noteq> LOW)
             damResults))"

definition zoneMax :: "zoneT \<Rightarrow> int" where
  "zoneMax z = max (flood_risk z) (landslide_risk z)"

text \<open>Five dam results, three of them in one state, used as a concrete batch below.\<close>

definition exampleHotspot :: damResultT where
  "exampleHotspot =
     damResult (exampleDam\<lparr>dam_name := ''Mullaperiyar Dam'', dam_state := ''Kerala''\<rparr>)
       (Some \<lparr>flood_score = 71, landslide_score = 30, confidence = 70,
              components = zeroComponents\<rparr>) None"

definition exampleResults :: "damResultT list" where
  "exampleResults =
     [damResult (exampleDam\<lparr>dam_name := ''Idukki Dam'', dam_state := ''Kerala''\<rparr>)
        (Some \<lparr>flood_score = 9, landslide_score = 12, confidence = 64,
               components = zeroComponents\<rparr>) None,
      exampleHotspot,
      damResult (exampleDam\<lparr>dam_name := ''Koyna Dam'', dam_state := ''Maharashtra''\<rparr>)
        (Some \<lparr>flood_score = 40, landslide_score = 58, confidence = 70,
               components = zeroComponents\<rparr>) None,
      damResult (exampleDam\<lparr>dam_name := ''Banasura Sagar Dam'', dam_state := ''Kerala''\<rparr>)
        None None,
      damResult exampleDam
        (Some \<lparr>flood_score = 35, landslide_score = 88, confidence = 81,
               components = zeroComponents\<rparr>) None]"

section \<open>Nowcast trend tracker and escalation gate (src/api/routes.js)\<close>

text \<open>
  The nowcast module keeps a process-wide \<open>Map\<close> from a dam key to the list of its recent
  overall one-hour scores. The map is passed explicitly here and returned updated;
  \<open>Date.now()\<close> is an argument. Scores are integers (they are results of
  \<open>Math.round\<close>), time stamps are milliseconds.
\<close>

record point =
  score :: int
  ts :: nat

type_synonym 'k scoreHistoryT = "'k \<rightharpoonup> point list"

text \<open>
  \<open>xs.slice(-n)\<close>: the relative start is \<open>max (length + (-n)) 0\<close>; for \<open>n = 0\<close> the
  argument is \<open>-0\<close>, the start is 0 and the whole array is returned.
\<close>

definition slice_last :: "nat \<Rightarrow> 'a list \<Rightarrow> 'a list" where
  "slice_last n xs = (if n = 0 then xs else drop (length xs - n) xs)"

definition updateHistory ::
  "'k scoreHistoryT \<Rightarrow> 'k \<Rightarrow> int \<Rightarrow> nat \<Rightarrow> nat \<Rightarrow> 'k scoreHistoryT \<times> point list" where
  "updateHistory scoreHistory damId sc now maxPoints =
     (let existing = (case scoreHistory damId of None \<Rightarrow> [] | Some h \<Rightarrow> h);
          nxt = slice_last maxPoints (existing @ [\<lparr>score = sc, ts = now\<rparr>])
      in (scoreHistory(damId \<mapsto> nxt), nxt))"

text \<open>
  The loop of \<open>consecutiveRising\<close>: \<open>i\<close> runs from \<open>length - 1\<close> down to 1 and stops at
  the first comparison that is not a strict rise. The loop index \<open>i\<close> is \<open>Suc j\<close>.
\<close>

fun risingLoop :: "point list \<Rightarrow> nat \<Rightarrow> nat \<Rightarrow> nat" where
  "risingLoop history 0 rising = rising"
| "risingLoop history (Suc j) rising =
     (if score (history ! Suc j) > score (history ! j)
      then risingLoop history j (rising + 1)
      else rising)"

definition consecutiveRising :: "point list \<Rightarrow> nat" where
  "consecutiveRising history =
     (if length history < 2 then 0 else risingLoop history (length history - 1) 0)"

text \<open>
  The nowcast section of the configuration; an absent key is \<open>None\<close> and takes the
  default through \<open>??\<close>.
\<close>

record nowcastCfgT =
  warning_threshold :: "real option"
  emergency_threshold :: "real option"
  rising_checks :: "real option"

definition nullish_default :: "'a option \<Rightarrow> 'a \<Rightarrow> 'a" where
  "nullish_default v d = (case v of None \<Rightarrow> d | Some x \<Rightarrow> x)"

definition warningThreshold :: "nowcastCfgT \<Rightarrow> real" where
  "warningThreshold nowcastCfg = nullish_default (warning_threshold nowcastCfg) 60"

definition emergencyThreshold :: "nowcastCfgT \<Rightarrow> real" where
  "emergencyThreshold nowcastCfg = nullish_default (emergency_threshold nowcastCfg) 75"

definition risingChecks :: "nowcastCfgT \<Rightarrow> real" where
  "risingChecks nowcastCfg = nullish_default (rising_checks nowcastCfg) 3"

definition defaultNowcastCfg :: nowcastCfgT where
  "defaultNowcastCfg =
     \<lparr>warning_threshold = None, emergency_threshold = None, rising_checks = None\<rparr>"

record oneHourT =
  flood_score_1h :: int
  landslide_score_1h :: int

record nowcastDamResult =
  overall_score_1h :: int
  warning_triggered :: bool
  emergency_triggered :: bool
  rising :: nat

text \<open>
  The escalation part of the body of the per-dam loop of \<open>runOneHourNowcast\<close>: the
  history of the dam is updated with the overall score (window 8, the default of
  \<open>updateHistory\<close>), and the two flags are read off the new history.
\<close>

definition overall1h :: "oneHourT \<Rightarrow> int" where
  "overall1h oneHour = max (flood_score_1h oneHour) (landslide_score_1h oneHour)"

definition nowcastDam ::
  "nowcastCfgT \<Rightarrow> 'k scoreHistoryT \<Rightarrow> 'k \<Rightarrow> oneHourT \<Rightarrow> nat
     \<Rightarrow> 'k scoreHistoryT \<times> nowcastDamResult" where
  "nowcastDam nowcastCfg scoreHistory key oneHour now =
     (let overall = overall1h oneHour;
          (scoreHistory', history) = updateHistory scoreHistory key overall now 8;
          rising = consecutiveRising history;
          warningTriggered =
            (real_of_int overall \<ge> warningThreshold nowcastCfg
             \<and> real rising \<ge> risingChecks nowcastCfg);
          emergencyTriggered =
            (real_of_int overall \<ge> emergencyThreshold nowcastCfg
             \<and> real rising \<ge> max 1 (risingChecks nowcastCfg - 1))
      in (scoreHistory',
          \<lparr>overall_score_1h = overall, warning_triggered = warningTriggered,
           emergency_triggered = emergencyTriggered, rising = rising\<rparr>))"

text \<open>Consecutive nowcast runs for one dam: each run is its one-hour scores and its clock.\<close>

fun nowcastRuns ::
  "nowcastCfgT \<Rightarrow> 'k scoreHistoryT \<Rightarrow> 'k \<Rightarrow> (oneHourT \<times> nat) list
     \<Rightarrow> 'k scoreHistoryT \<times> nowcastDamResult list" where
  "nowcastRuns nowcastCfg scoreHistory key [] = (scoreHistory, [])"
| "nowcastRuns nowcastCfg scoreHistory key ((oneHour, now) # runs) =
     (let (scoreHistory', r) = nowcastDam nowcastCfg scoreHistory key oneHour now;
          (scoreHistory'', rs) = nowcastRuns nowcastCfg scoreHistory' key runs
      in (scoreHistory'', r # rs))"

text \<open>Appending a sequence of points to the history of one dam, oldest first.\<close>

fun appendAll :: "'k scoreHistoryT \<Rightarrow> 'k \<Rightarrow> (int \<times> nat) list \<Rightarrow> 'k scoreHistoryT" where
  "appendAll scoreHistory damId [] = scoreHistory"
| "appendAll scoreHistory damId ((sc, now) # rest) =
     appendAll (fst (updateHistory scoreHistory damId sc now 8)) damId rest"

definition historyOf :: "'k scoreHistoryT \<Rightarrow> 'k \<Rightarrow> point list" where
  "historyOf scoreHistory damId = (case scoreHistory damId of None \<Rightarrow> [] | Some h \<Rightarrow> h)"

definition mkPoint :: "int \<times> nat \<Rightarrow> point" where
  "mkPoint p = \<lparr>score = fst p, ts = snd p\<rparr>"

section \<open>Properties of the reservoir matcher\<close>

subsection \<open>The combined score\<close>

lemma getCandidateNames_variants:
  "\<not> inheritedKey (toLowerCase damName) \<Longrightarrow>
     getCandidateNames damName = Inr (spec_nameVariants damName)"
  by (simp add: getCandidateNames_def spec_nameVariants_def Let_def)

lemma getCandidateNames_throws:
  "inheritedKey (toLowerCase damName) \<Longrightarrow> getCandidateNames damName = Inl TypeError"
  by (simp add: getCandidateNames_def Let_def)

lemma jaccardScore_tokenSet: "jaccardScore a b = spec_tokenSetSimilarity a b"
proof -
  let ?A = "remdups (tokens a)" and ?B = "remdups (tokens b)"
  have inter: "length (filter (\<lambda>item. item \<in> set ?B) ?A)
                 = card (set (tokens a) \<inter> set (tokens b))"
  proof -
    have "length (filter (\<lambda>item. item \<in> set ?B) ?A) = card ({x. x \<in> set ?B} \<inter> set ?A)"
      by (rule distinct_length_filter) simp
    also have "{x. x \<in> set ?B} \<inter> set ?A = set (tokens a) \<inter> set (tokens b)"
      by auto
    finally show ?thesis .
  qed
  have union: "length (remdups (?A @ ?B)) = card (set (tokens a) \<union> set (tokens b))"
    by (simp add: length_remdups_card_conv)
  have empty: "?A = [] \<longleftrightarrow> set (tokens a) = {}" "?B = [] \<longleftrightarrow> set (tokens b) = {}"
    by simp_all
  have pos: "set (tokens a) \<noteq> {} \<Longrightarrow> card (set (tokens a) \<union> set (tokens b)) \<noteq> 0"
    by simp
  show ?thesis
    unfolding jaccardScore_def spec_tokenSetSimilarity_def Let_def inter union empty
    using pos by simp
qed

lemma nameLoop_step:
  "nameLoop (name # rest) reservoirName bestNameScore
     = nameLoop rest reservoirName (max bestNameScore (spec_variantSimilarity name reservoirName))"
  by (simp add: Let_def spec_variantSimilarity_def spec_substringMatch_def
      jaccardScore_tokenSet max_def)

lemma nameLoop_Max:
  "nameLoop names reservoirName bestNameScore
     = Max (insert bestNameScore ((\<lambda>v. spec_variantSimilarity v reservoirName) ` set names))"
proof (induction names arbitrary: bestNameScore)
  case Nil
  then show ?case by simp
next
  case (Cons name rest)
  let ?S = "(\<lambda>v. spec_variantSimilarity v reservoirName) ` set rest"
  let ?s = "spec_variantSimilarity name reservoirName"
  have "Max (insert (max bestNameScore ?s) ?S) = Max (insert bestNameScore (insert ?s ?S))"
  proof (cases "?S = {}")
    case True
    then show ?thesis by simp
  next
    case False
    then show ?thesis by (simp add: max.assoc)
  qed
  then show ?case
    unfolding nameLoop_step Cons.IH by simp
qed

text \<open>
  For a dam whose name is not an inherited key, \<open>scoreReservoirMatch\<close> returns the
  combined score of the specification.
\<close>

lemma scoreReservoirMatch_combined:
  assumes "\<not> inheritedKey (toLowerCase (dam_name dam))"
  shows "scoreReservoirMatch dam reservoir = Inr (spec_combinedScore dam reservoir)"
proof -
  have bonus: "(if normalizeText (dam_state dam) \<noteq> [] \<and> normalizeText (res_state reservoir) \<noteq> []
                   \<and> normalizeText (dam_state dam) = normalizeText (res_state reservoir)
                then fl64 (2 / 10) else 0) = spec_regionBonus dam reservoir"
    by (auto simp: spec_regionBonus_def)
  show ?thesis
    unfolding scoreReservoirMatch_def getCandidateNames_variants[OF assms] Let_def bonus
    by (simp add: nameLoop_Max spec_combinedScore_def spec_nameSimilarity_def)
qed

lemma scoreReservoirMatch_throws:
  "inheritedKey (toLowerCase (dam_name dam)) \<Longrightarrow> scoreReservoirMatch dam reservoir = Inl TypeError"
  by (simp add: scoreReservoirMatch_def getCandidateNames_throws)

subsection \<open>The selection\<close>

lemma matchLoop_selects:
  assumes ok: "\<not> inheritedKey (toLowerCase (dam_name dam))"
  shows "\<exists>best' bestScore'.
           matchLoop dam rs best bestScore = Inr (best', bestScore')
           \<and> bestScore \<le> bestScore'
           \<and> (\<forall>r \<in> set rs. spec_combinedScore dam r \<le> bestScore')
           \<and> ((best' = best \<and> bestScore' = bestScore)
               \<or> (\<exists>r \<in> set rs. best' = Some r \<and> bestScore' = spec_combinedScore dam r))"
proof (induction rs arbitrary: best bestScore)
  case Nil
  then show ?case by simp
next
  case (Cons x rs)
  let ?sc = "spec_combinedScore dam x"
  show ?case
  proof (cases "?sc > bestScore")
    case True
    then have step: "matchLoop dam (x # rs) best bestScore = matchLoop dam rs (Some x) ?sc"
      by (simp add: scoreReservoirMatch_combined[OF ok])
    from Cons.IH[of "Some x" ?sc] obtain b s where
      r: "matchLoop dam rs (Some x) ?sc = Inr (b, s)" "?sc \<le> s"
         "\<forall>r \<in> set rs. spec_combinedScore dam r \<le> s"
         "(b = Some x \<and> s = ?sc) \<or> (\<exists>r \<in> set rs. b = Some r \<and> s = spec_combinedScore dam r)"
      by blast
    have "bestScore \<le> s" using True r(2) by simp
    moreover have "\<forall>r \<in> set (x # rs). spec_combinedScore dam r \<le> s" using r(2,3) by simp
    moreover have "\<exists>r \<in> set (x # rs). b = Some r \<and> s = spec_combinedScore dam r"
      using r(4) by auto
    ultimately show ?thesis using step r(1) by simp
  next
    case False
    then have step: "matchLoop dam (x # rs) best bestScore = matchLoop dam rs best bestScore"
      by (simp add: scoreReservoirMatch_combined[OF ok])
    from Cons.IH[of best bestScore] obtain b s where
      r: "matchLoop dam rs best bestScore = Inr (b, s)" "bestScore \<le> s"
         "\<forall>r \<in> set rs. spec_combinedScore dam r \<le> s"
         "(b = best \<and> s = bestScore) \<or> (\<exists>r \<in> set rs. b = Some r \<and> s = spec_combinedScore dam r)"
      by blast
    have "\<forall>r \<in> set (x # rs). spec_combinedScore dam r \<le> s" using r(2,3) False by simp
    moreover have "(b = best \<and> s = bestScore)
                   \<or> (\<exists>r \<in> set (x # rs). b = Some r \<and> s = spec_combinedScore dam r)"
      using r(4) by auto
    ultimately show ?thesis using step r(1,2) by simp
  qed
qed

lemma matchLoop_throws:
  "inheritedKey (toLowerCase (dam_name dam)) \<Longrightarrow> rs \<noteq> [] \<Longrightarrow>
     matchLoop dam rs best bestScore = Inl TypeError"
  by (cases rs) (simp_all add: scoreReservoirMatch_throws)

text \<open>
  The selection of \<open>matchReservoirToDam\<close> for a dam whose name is not an inherited key
  and a positive minimum score: a returned record is a candidate whose combined score
  is the greatest of all candidates and at least the minimum, annotated with that score
  rounded to two decimals in double arithmetic; nothing is returned when every
  candidate is below the minimum, and a record is returned when one reaches it.
\<close>

lemma matchReservoirToDam_threshold:
  assumes ok: "\<not> inheritedKey (toLowerCase (dam_name d))" and pos: "0 < minScore"
  shows "(matchReservoirToDam (Some d) rs minScore = Inr (Some m) \<longrightarrow>
            (\<exists>r \<in> set rs.
               m = r\<lparr>match_score :=
                       Some (fl64 (of_int (mathRound (fl64 (spec_combinedScore d r * 100))) / 100))\<rparr>
               \<and> minScore \<le> spec_combinedScore d r
               \<and> (\<forall>r' \<in> set rs. spec_combinedScore d r' \<le> spec_combinedScore d r)))
       \<and> ((\<forall>r \<in> set rs. spec_combinedScore d r < minScore) \<longrightarrow>
            matchReservoirToDam (Some d) rs minScore = Inr None)
       \<and> ((\<exists>r \<in> set rs. minScore \<le> spec_combinedScore d r) \<longrightarrow>
            (\<exists>m'. matchReservoirToDam (Some d) rs minScore = Inr (Some m')))"
proof -
  from matchLoop_selects[OF ok, of rs None 0] obtain b s where
    loop: "matchLoop d rs None 0 = Inr (b, s)" and "0 \<le> s"
    and upper: "\<forall>r \<in> set rs. spec_combinedScore d r \<le> s"
    and sel: "(b = None \<and> s = 0) \<or> (\<exists>r \<in> set rs. b = Some r \<and> s = spec_combinedScore d r)"
    by blast
  have res: "matchReservoirToDam (Some d) rs minScore
               = (if rs = [] then Inr None
                  else if s < minScore then Inr None else Inr (Some (annotate b s)))"
    using loop by (simp add: matchReservoirToDam_def)
  have a: "matchReservoirToDam (Some d) rs minScore = Inr (Some m) \<longrightarrow>
            (\<exists>r \<in> set rs.
               m = r\<lparr>match_score :=
                       Some (fl64 (of_int (mathRound (fl64 (spec_combinedScore d r * 100))) / 100))\<rparr>
               \<and> minScore \<le> spec_combinedScore d r
               \<and> (\<forall>r' \<in> set rs. spec_combinedScore d r' \<le> spec_combinedScore d r))"
  proof
    assume "matchReservoirToDam (Some d) rs minScore = Inr (Some m)"
    then have ge: "minScore \<le> s" and m: "m = annotate b s"
      using res by (auto split: if_splits)
    from sel ge pos obtain r where r: "r \<in> set rs" "b = Some r" "s = spec_combinedScore d r"
      by auto
    show "\<exists>r \<in> set rs.
            m = r\<lparr>match_score :=
                    Some (fl64 (of_int (mathRound (fl64 (spec_combinedScore d r * 100))) / 100))\<rparr>
            \<and> minScore \<le> spec_combinedScore d r
            \<and> (\<forall>r' \<in> set rs. spec_combinedScore d r' \<le> spec_combinedScore d r)"
      using r ge m upper by (intro bexI[of _ r]) (simp_all add: annotate_def)
  qed
  have b: "(\<forall>r \<in> set rs. spec_combinedScore d r < minScore) \<longrightarrow>
             matchReservoirToDam (Some d) rs minScore = Inr None"
    using res sel pos by auto
  have c: "(\<exists>r \<in> set rs. minScore \<le> spec_combinedScore d r) \<longrightarrow>
             (\<exists>m'. matchReservoirToDam (Some d) rs minScore = Inr (Some m'))"
  proof
    assume "\<exists>r \<in> set rs. minScore \<le> spec_combinedScore d r"
    then obtain r where "r \<in> set rs" "minScore \<le> spec_combinedScore d r" by blast
    then have "rs \<noteq> []" "\<not> s < minScore" using upper by auto
    then show "\<exists>m'. matchReservoirToDam (Some d) rs minScore = Inr (Some m')"
      using res by simp
  qed
  from a b c show ?thesis by blast
qed

lemma matchReservoirToDam_throws:
  "inheritedKey (toLowerCase (dam_name d)) \<Longrightarrow> rs \<noteq> [] \<Longrightarrow>
     matchReservoirToDam (Some d) rs minScore = Inl TypeError"
  by (simp add: matchReservoirToDam_def matchLoop_throws)

lemma matchReservoirToDam_no_candidates:
  "matchReservoirToDam dam [] minScore = Inr None"
  by (simp add: matchReservoirToDam_def split: option.splits)

subsection \<open>Concrete dams\<close>

lemma example_scores:
  "scoreReservoirMatch exampleIndiraDam exampleIndira = Inr (fl64 (7 / 10))"
  "scoreReservoirMatch exampleIndiraDam exampleKoyna = Inr 0"
  by code_simp+

lemma example_doubles:
  "\<not> fl64 (7 / 10) < defaultMinScore"
  "0 < defaultMinScore"
  "0 < fl64 (7 / 10)"
  "fl64 (of_int (mathRound (fl64 (fl64 (7 / 10) * 100))) / 100) = fl64 (7 / 10)"
  by code_simp+

text \<open>
  Three facts of double arithmetic at which it differs from exact arithmetic or agrees
  with it: 0.25 + 0.2 is the double 0.45, 0.7 + 0.2 is below the double 0.9, and
  (0.375 + 0.2) * 100 rounds to 57.
\<close>

lemma double_facts:
  "fl64 (1 / 4 + fl64 (2 / 10)) = fl64 (45 / 100)"
  "fl64 (fl64 (7 / 10) + fl64 (2 / 10)) < fl64 (9 / 10)"
  "mathRound (fl64 (fl64 (3 / 8 + fl64 (2 / 10)) * 100)) = 57"
  by code_simp+

lemma example_match:
  "matchReservoirToDam (Some exampleIndiraDam) [exampleKoyna, exampleIndira] defaultMinScore
     = Inr (Some (exampleIndira\<lparr>match_score := Some (fl64 (7 / 10))\<rparr>))"
  by (simp add: matchReservoirToDam_def example_scores example_doubles annotate_def)

text \<open>
  Claim C5. The claim promises a match or none for every dam. For a dam whose name in
  lower case is \<open>constructor\<close> (or \<open>__proto__\<close>) and a list with at least one candidate,
  the alias lookup finds an inherited property of the alias table, the spread of it
  throws, and \<open>matchReservoirToDam\<close> ends with a \<open>TypeError\<close>: neither a match nor none.
  The same list with no candidate gives none, and a dam with another name gets the
  match that the claim describes.
\<close>

theorem matchReservoirToDam_inherited_name_throws:
  "matchReservoirToDam (Some exampleConstructorDam) [exampleKoyna, exampleIndira]
     defaultMinScore = Inl TypeError
   \<and> matchReservoirToDam (Some exampleConstructorDam) [] defaultMinScore = Inr None
   \<and> matchReservoirToDam (Some exampleIndiraDam) [exampleKoyna, exampleIndira] defaultMinScore
       = Inr (Some (exampleIndira\<lparr>match_score := Some (fl64 (7 / 10))\<rparr>))"
proof -
  have "inheritedKey (toLowerCase (dam_name exampleConstructorDam))"
    by (simp add: exampleConstructorDam_def inheritedKey_def toLowerCase_def toLowerChar_def
        isUpper_def)
  then have "matchReservoirToDam (Some exampleConstructorDam) [exampleKoyna, exampleIndira]
               defaultMinScore = Inl TypeError"
    by (rule matchReservoirToDam_throws) simp
  then show ?thesis
    by (simp add: matchReservoirToDam_no_candidates example_match)
qed

section \<open>Properties of the risk formula\<close>

subsection \<open>Ranges\<close>

lemma clamp_bounds: "lo \<le> hi \<Longrightarrow> lo \<le> clamp v lo hi \<and> clamp v lo hi \<le> hi"
  by (simp add: clamp_def)

lemma clamp_mono: "v \<le> w \<Longrightarrow> clamp v lo hi \<le> clamp w lo hi"
  by (simp add: clamp_def max_def min_def)

lemma round_0_100: "0 \<le> (x::real) \<Longrightarrow> x \<le> 100 \<Longrightarrow> 0 \<le> round x \<and> round x \<le> 100"
  using round_mono[of 0 x] round_mono[of x 100] by simp

lemma round_clamp_0_100: "0 \<le> round (clamp v 0 100) \<and> round (clamp v 0 100) \<le> 100"
  using clamp_bounds[of 0 100 v] by (simp add: round_0_100)

lemma sigmoidTo100_mono:
  assumes "v \<le> w" and "0 \<le> s"
  shows "sigmoidTo100 v c s \<le> sigmoidTo100 w c s"
proof -
  have "s * (v - c) \<le> s * (w - c)" using assms by (simp add: mult_left_mono)
  then have "exp (- (s * (w - c))) \<le> exp (- (s * (v - c)))" by simp
  then have "1 + exp (- (s * (w - c))) \<le> 1 + exp (- (s * (v - c)))" by simp
  moreover have "0 < 1 + exp (- (s * (w - c)))" by (simp add: add_pos_pos)
  ultimately have "100 / (1 + exp (- (s * (v - c)))) \<le> 100 / (1 + exp (- (s * (w - c))))"
    by (intro divide_left_mono) (simp_all add: add_pos_pos)
  then show ?thesis by (simp add: sigmoidTo100_def)
qed

lemma levelStress_bounds: "levelStress rc = Some ls \<Longrightarrow> 0 \<le> ls \<and> ls \<le> 100"
  using clamp_bounds[of 0 100] by (auto simp: levelStress_def split: option.splits)

lemma flowStress_bounds: "flowStress rc = Some fs \<Longrightarrow> 0 \<le> fs \<and> fs \<le> 100"
  using clamp_bounds[of 0 100]
  by (auto simp: flowStress_def Let_def split: option.splits if_splits)

lemma reservoirStressIndex_bounds:
  "0 \<le> reservoirStressIndex rc \<and> reservoirStressIndex rc \<le> 100"
proof (cases "levelStress rc")
  case None
  show ?thesis
  proof (cases "flowStress rc")
    case None
    with \<open>levelStress rc = None\<close> show ?thesis by (simp add: reservoirStressIndex_def)
  next
    case (Some fs)
    with \<open>levelStress rc = None\<close> flowStress_bounds[OF Some] show ?thesis
      by (simp add: reservoirStressIndex_def round_0_100)
  qed
next
  case (Some ls)
  note ls = levelStress_bounds[OF Some]
  show ?thesis
  proof (cases "flowStress rc")
    case None
    with Some ls show ?thesis by (simp add: reservoirStressIndex_def round_0_100)
  next
    case fs: (Some fs)
    have "0 \<le> 0.7 * ls + 0.3 * fs" "0.7 * ls + 0.3 * fs \<le> 100"
      using ls flowStress_bounds[OF fs] by auto
    then show ?thesis using Some fs by (simp add: reservoirStressIndex_def round_0_100)
  qed
qed

lemma lowlandFactor_bounds: "0 \<le> lowlandFactor inp \<and> lowlandFactor inp \<le> 100"
  by (simp add: lowlandFactor_def split: option.splits)

lemma terrain_bounds: "0 \<le> terrain inp \<and> terrain inp \<le> 100"
  using clamp_bounds[of 0 100] by (simp add: terrain_def split: option.splits)

lemma proneStateBoost_bounds: "0 \<le> proneStateBoost inp \<and> proneStateBoost inp \<le> 100"
  by (simp add: proneStateBoost_def)

lemma completeness_bounds: "0 \<le> completeness inp \<and> completeness inp \<le> 1"
proof -
  have "length (filter (\<lambda>b. b) (featuresAvailable inp)) \<le> length (featuresAvailable inp)"
    by (rule length_filter_le)
  moreover have "length (featuresAvailable inp) = 8" by (simp add: featuresAvailable_def)
  ultimately show ?thesis by (simp add: completeness_def)
qed

lemma sourceDiversity_bounds: "3 \<le> sourceDiversity inp \<and> sourceDiversity inp \<le> 5"
  by (simp add: sourceDiversity_def)

lemma confidenceOf_bounds: "54 \<le> confidenceOf inp \<and> confidenceOf inp \<le> 100"
proof -
  let ?c = "45 + completeness inp * 40 + sourceDiversity inp * 3"
  have "54 \<le> ?c" using completeness_bounds[of inp] sourceDiversity_bounds[of inp] by simp
  then have "54 \<le> clamp ?c 0 100" by (simp add: clamp_def)
  then have "round (54::real) \<le> round (clamp ?c 0 100)" by (rule round_mono)
  moreover have "round (clamp ?c 0 100) \<le> 100" using round_clamp_0_100 by simp
  ultimately show ?thesis by (simp add: confidenceOf_def)
qed

lemma in0_100_round_clamp: "in0_100 (round (clamp v 0 100))"
  using round_clamp_0_100 by (simp add: in0_100_def)

lemma in0_100_round: "0 \<le> (x::real) \<and> x \<le> 100 \<Longrightarrow> in0_100 (round x)"
  using round_0_100[of x] by (simp add: in0_100_def)

text \<open>
  Claim C3. For every feature bundle, the flood score, the landslide score and the
  confidence returned by \<open>calculateAdvancedRisk\<close> are integers between 0 and 100, and so
  is every sub-index of the returned components (intensity, persistence, saturation,
  reservoir stress, anomaly, seismic, lowland factor; intensity, duration, terrain,
  seismic, anomaly, reservoir spill stress, prone-state boost). Each field is an \<open>int\<close>
  computed by a total function, so none is \<open>NaN\<close> or \<open>undefined\<close>.
\<close>

theorem calculateAdvancedRisk_scores_in_range:
  "in0_100 (flood_score (calculateAdvancedRisk inp))
   \<and> in0_100 (landslide_score (calculateAdvancedRisk inp))
   \<and> in0_100 (confidence (calculateAdvancedRisk inp))
   \<and> in0_100 (fl_intensity (flood (components (calculateAdvancedRisk inp))))
   \<and> in0_100 (fl_persistence (flood (components (calculateAdvancedRisk inp))))
   \<and> in0_100 (fl_saturation (flood (components (calculateAdvancedRisk inp))))
   \<and> in0_100 (fl_reservoir_stress (flood (components (calculateAdvancedRisk inp))))
   \<and> in0_100 (fl_anomaly (flood (components (calculateAdvancedRisk inp))))
   \<and> in0_100 (fl_seismic (flood (components (calculateAdvancedRisk inp))))
   \<and> in0_100 (fl_lowland_factor (flood (components (calculateAdvancedRisk inp))))
   \<and> in0_100 (ls_intensity (landslide (components (calculateAdvancedRisk inp))))
   \<and> in0_100 (ls_duration (landslide (components (calculateAdvancedRisk inp))))
   \<and> in0_100 (ls_terrain (landslide (components (calculateAdvancedRisk inp))))
   \<and> in0_100 (ls_seismic (landslide (components (calculateAdvancedRisk inp))))
   \<and> in0_100 (ls_anomaly (landslide (components (calculateAdvancedRisk inp))))
   \<and> in0_100 (ls_reservoir_spill_stress (landslide (components (calculateAdvancedRisk inp))))
   \<and> in0_100 (ls_prone_state_boost (landslide (components (calculateAdvancedRisk inp))))"
proof -
  have "in0_100 (confidenceOf inp)"
    using confidenceOf_bounds[of inp] by (simp add: in0_100_def)
  moreover have "in0_100 (reservoirStress inp)"
    using reservoirStressIndex_bounds by (simp add: in0_100_def reservoirStress_def)
  moreover have "in0_100 (round (lowlandFactor inp))"
    by (rule in0_100_round) (rule lowlandFactor_bounds)
  moreover have "in0_100 (round (terrain inp))"
    by (rule in0_100_round) (rule terrain_bounds)
  moreover have "in0_100 (round (proneStateBoost inp))"
    by (rule in0_100_round) (rule proneStateBoost_bounds)
  ultimately show ?thesis
    by (simp add: calculateAdvancedRisk_def floodScore_def landslideScore_def
        intensityFlood_def persistence_def saturation_def anomaly_def seismic_def
        intensityLand_def durationLand_def seismicLand_def spillSlopeStress_def
        in0_100_round_clamp)
qed


subsection \<open>Monotonicity in the 24-hour rainfall\<close>

lemma rainSummaryOf_with:
  "rainSummaryOf (withRain24h x inp) = (rainSummaryOf inp)\<lparr>precipitation_sum_24h_mm := Num x\<rparr>"
  by (simp add: withRain24h_def rainSummaryOf_def)

lemma r24_with: "r24 (withRain24h x inp) = x"
  by (simp add: r24_def rainSummaryOf_with safeNum_def toNumber_def)

lemma peak_with: "peak (withRain24h x inp) = peak inp"
  by (simp add: peak_def rainSummaryOf_with)

lemma fields_with:
  "rain72h (withRain24h x inp) = rain72h inp"
  "rain7d (withRain24h x inp) = rain7d inp"
  "precipitation_sum_72h_mm (rainSummaryOf (withRain24h x inp))
     = precipitation_sum_72h_mm (rainSummaryOf inp)"
  "precipitation_sum_7d_mm (rainSummaryOf (withRain24h x inp))
     = precipitation_sum_7d_mm (rainSummaryOf inp)"
  by (simp_all add: rainSummaryOf_with) (simp_all add: withRain24h_def)

lemma r72_with_mono: "a \<le> b \<Longrightarrow> r72 (withRain24h a inp) \<le> r72 (withRain24h b inp)"
  by (simp add: r72_def r24_with fields_with coalesce_def safeNum_def toNumber_def)

lemma r7_with_mono: "a \<le> b \<Longrightarrow> r7 (withRain24h a inp) \<le> r7 (withRain24h b inp)"
  using r72_with_mono[of a b inp]
  by (simp add: r7_def fields_with coalesce_def safeNum_def toNumber_def)

lemma earthquakes_with: "earthquakesNearbyNum (withRain24h x inp) = earthquakesNearbyNum inp"
  by (simp add: earthquakesNearbyNum_def withRain24h_def)

lemma elevation_with: "elevationNum (withRain24h x inp) = elevationNum inp"
  by (simp add: elevationNum_def withRain24h_def)

lemma baseline_with: "baselineAvgDailyNum (withRain24h x inp) = baselineAvgDailyNum inp"
  by (simp add: baselineAvgDailyNum_def withRain24h_def)

lemma reservoirStress_with: "reservoirStress (withRain24h x inp) = reservoirStress inp"
  by (simp add: reservoirStress_def reservoirContextOf_def withRain24h_def)

lemma stateLower_with: "stateLower (withRain24h x inp) = stateLower inp"
  by (simp add: stateLower_def withRain24h_def)

lemma anomalyRatio_with_mono:
  "a \<le> b \<Longrightarrow> anomalyRatio (withRain24h a inp) \<le> anomalyRatio (withRain24h b inp)"
  by (simp add: anomalyRatio_def baseline_with r24_with divide_right_mono split: option.splits)

lemma intensityFlood_with_mono:
  "a \<le> b \<Longrightarrow> intensityFlood (withRain24h a inp) \<le> intensityFlood (withRain24h b inp)"
  unfolding intensityFlood_def r24_with peak_with
  by (rule clamp_mono) (simp add: divide_right_mono)

lemma intensityLand_with_mono:
  "a \<le> b \<Longrightarrow> intensityLand (withRain24h a inp) \<le> intensityLand (withRain24h b inp)"
  unfolding intensityLand_def r24_with peak_with
  by (rule clamp_mono) (simp add: divide_right_mono)

lemma persistence_with_mono:
  "a \<le> b \<Longrightarrow> persistence (withRain24h a inp) \<le> persistence (withRain24h b inp)"
  unfolding persistence_def using r72_with_mono[of a b inp]
  by (intro clamp_mono) (simp add: divide_right_mono)

lemma durationLand_with_mono:
  "a \<le> b \<Longrightarrow> durationLand (withRain24h a inp) \<le> durationLand (withRain24h b inp)"
  unfolding durationLand_def using r72_with_mono[of a b inp]
  by (intro clamp_mono) (simp add: divide_right_mono)

lemma saturation_with_mono:
  "a \<le> b \<Longrightarrow> saturation (withRain24h a inp) \<le> saturation (withRain24h b inp)"
  unfolding saturation_def using r7_with_mono[of a b inp]
  by (intro clamp_mono) (simp add: divide_right_mono)

lemma anomaly_with_mono:
  "a \<le> b \<Longrightarrow> anomaly (withRain24h a inp) \<le> anomaly (withRain24h b inp)"
  unfolding anomaly_def using anomalyRatio_with_mono[of a b inp]
  by (intro clamp_mono) simp

lemma seismic_with: "seismic (withRain24h x inp) = seismic inp"
  by (simp add: seismic_def earthquakes_with)

lemma seismicLand_with: "seismicLand (withRain24h x inp) = seismicLand inp"
  by (simp add: seismicLand_def earthquakes_with)

lemma lowlandFactor_with: "lowlandFactor (withRain24h x inp) = lowlandFactor inp"
  by (simp add: lowlandFactor_def elevation_with)

lemma terrain_with: "terrain (withRain24h x inp) = terrain inp"
  by (simp add: terrain_def elevation_with)

lemma proneStateBoost_with: "proneStateBoost (withRain24h x inp) = proneStateBoost inp"
  by (simp add: proneStateBoost_def stateLower_with)

lemma spillSlopeStress_with: "spillSlopeStress (withRain24h x inp) = spillSlopeStress inp"
  by (simp add: spillSlopeStress_def reservoirStress_with)

lemma floodLinear_with_mono:
  assumes "a \<le> b"
  shows "floodLinear (withRain24h a inp) \<le> floodLinear (withRain24h b inp)"
  using intensityFlood_with_mono[OF assms, of inp] persistence_with_mono[OF assms, of inp]
    saturation_with_mono[OF assms, of inp] anomaly_with_mono[OF assms, of inp]
  by (simp add: floodLinear_def reservoirStress_with seismic_with lowlandFactor_with)

lemma landslideLinear_with_mono:
  assumes "a \<le> b"
  shows "landslideLinear (withRain24h a inp) \<le> landslideLinear (withRain24h b inp)"
  using intensityLand_with_mono[OF assms, of inp] durationLand_with_mono[OF assms, of inp]
    anomaly_with_mono[OF assms, of inp]
  by (simp add: landslideLinear_def terrain_with seismicLand_with spillSlopeStress_with
      proneStateBoost_with)

text \<open>
  Claim C4. With every other input of \<open>calculateAdvancedRisk\<close> held fixed, a larger
  24-hour rainfall sum never gives a smaller flood score or landslide score.
\<close>

theorem rain24h_monotone:
  assumes "a \<le> b"
  shows "flood_score (calculateAdvancedRisk (withRain24h a inp))
           \<le> flood_score (calculateAdvancedRisk (withRain24h b inp))
       \<and> landslide_score (calculateAdvancedRisk (withRain24h a inp))
           \<le> landslide_score (calculateAdvancedRisk (withRain24h b inp))"
proof -
  have "floodScore (withRain24h a inp) \<le> floodScore (withRain24h b inp)"
    unfolding floodScore_def
    by (intro round_mono clamp_mono sigmoidTo100_mono floodLinear_with_mono assms) simp
  moreover have "landslideScore (withRain24h a inp) \<le> landslideScore (withRain24h b inp)"
    unfolding landslideScore_def
    by (intro round_mono clamp_mono sigmoidTo100_mono landslideLinear_with_mono assms) simp
  ultimately show ?thesis by (simp add: calculateAdvancedRisk_def)
qed

theorem rain24h_monotone_witness:
  "(0::real) \<le> 120
   \<and> flood_score (calculateAdvancedRisk (withRain24h 0 emptyInput))
        \<le> flood_score (calculateAdvancedRisk (withRain24h 120 emptyInput))
   \<and> landslide_score (calculateAdvancedRisk (withRain24h 0 emptyInput))
        \<le> landslide_score (calculateAdvancedRisk (withRain24h 120 emptyInput))"
  using rain24h_monotone[of 0 120 emptyInput] by simp

subsection \<open>The empty bundle\<close>

text \<open>
  The logistic curve needs bounds on \<open>exp\<close> at two points. From below they come from
  the quadratic Taylor bound at an eighth of the argument, from above from
  \<open>(1 - x / n) ^ n \<le> exp (- x)\<close> with \<open>n = 128\<close>, the power being bounded by repeated
  squaring.
\<close>

lemma exp_lower_pow8:
  fixes x :: real
  assumes x: "0 \<le> x"
  shows "(1 + x + x\<^sup>2 / 2) ^ 8 \<le> exp (8 * x)"
proof -
  have "(1 + x + x\<^sup>2 / 2) ^ 8 \<le> exp x ^ 8"
    using x by (intro power_mono exp_lower_Taylor_quadratic add_nonneg_nonneg) simp_all
  also have "\<dots> = exp (8 * x)"
    using exp_of_nat_mult[of 8 x] by simp
  finally show ?thesis .
qed

lemma exp_upper_pow128:
  fixes x :: real
  assumes "0 \<le> x" and "x < 128"
  shows "exp x \<le> 1 / (1 - x / 128) ^ 128"
proof -
  have pos: "0 < (1 - x / 128) ^ 128" using assms by simp
  have "(1 - x / real (128::nat)) ^ 128 \<le> exp (- x)"
    using assms by (intro exp_ge_one_minus_x_over_n_power_n) simp_all
  then have "(1 - x / 128) ^ 128 * exp x \<le> exp (- x) * exp x"
    by (intro mult_right_mono) simp_all
  then have "(1 - x / 128) ^ 128 * exp x \<le> 1"
    by (simp add: exp_minus)
  then show ?thesis using pos by (simp add: pos_le_divide_eq mult.commute)
qed

lemma square_lower_step:
  fixes a b c :: real
  assumes "b \<le> a ^ n" and "0 \<le> b" and "c \<le> b * b"
  shows "c \<le> a ^ (2 * n)"
proof -
  have "b * b \<le> a ^ n * a ^ n" using assms by (intro mult_mono) auto
  then show ?thesis using assms by (simp add: power_add mult_2)
qed

lemma pow128_flood: "(1 / 65 :: real) \<le> (2479 / 2560) ^ 128"
proof -
  have s0: "(968359 / 1000000 :: real) \<le> (2479 / 2560) ^ 1" by simp
  have s1: "(937719 / 1000000 :: real) \<le> (2479 / 2560) ^ (2 * 1)"
    by (rule square_lower_step[OF s0]) simp_all
  have s2: "(879316 / 1000000 :: real) \<le> (2479 / 2560) ^ (2 * (2 * 1))"
    by (rule square_lower_step[OF s1]) simp_all
  have s3: "(773196 / 1000000 :: real) \<le> (2479 / 2560) ^ (2 * (2 * (2 * 1)))"
    by (rule square_lower_step[OF s2]) simp_all
  have s4: "(597832 / 1000000 :: real) \<le> (2479 / 2560) ^ (2 * (2 * (2 * (2 * 1))))"
    by (rule square_lower_step[OF s3]) simp_all
  have s5: "(357403 / 1000000 :: real) \<le> (2479 / 2560) ^ (2 * (2 * (2 * (2 * (2 * 1)))))"
    by (rule square_lower_step[OF s4]) simp_all
  have s6: "(127736 / 1000000 :: real) \<le> (2479 / 2560) ^ (2 * (2 * (2 * (2 * (2 * (2 * 1))))))"
    by (rule square_lower_step[OF s5]) simp_all
  have s7: "(16316 / 1000000 :: real) \<le> (2479 / 2560) ^ (2 * (2 * (2 * (2 * (2 * (2 * (2 * 1)))))))"
    by (rule square_lower_step[OF s6]) simp_all
  have "(2 * (2 * (2 * (2 * (2 * (2 * (2 * 1)))))) :: nat) = 128" by simp
  with s7 show ?thesis by simp
qed

lemma pow128_landslide: "(1 / 21 :: real) \<le> (5001 / 5120) ^ 128"
proof -
  have s0: "(976757 / 1000000 :: real) \<le> (5001 / 5120) ^ 1" by simp
  have s1: "(954054 / 1000000 :: real) \<le> (5001 / 5120) ^ (2 * 1)"
    by (rule square_lower_step[OF s0]) simp_all
  have s2: "(910219 / 1000000 :: real) \<le> (5001 / 5120) ^ (2 * (2 * 1))"
    by (rule square_lower_step[OF s1]) simp_all
  have s3: "(828498 / 1000000 :: real) \<le> (5001 / 5120) ^ (2 * (2 * (2 * 1)))"
    by (rule square_lower_step[OF s2]) simp_all
  have s4: "(686408 / 1000000 :: real) \<le> (5001 / 5120) ^ (2 * (2 * (2 * (2 * 1))))"
    by (rule square_lower_step[OF s3]) simp_all
  have s5: "(471155 / 1000000 :: real) \<le> (5001 / 5120) ^ (2 * (2 * (2 * (2 * (2 * 1)))))"
    by (rule square_lower_step[OF s4]) simp_all
  have s6: "(221987 / 1000000 :: real) \<le> (5001 / 5120) ^ (2 * (2 * (2 * (2 * (2 * (2 * 1))))))"
    by (rule square_lower_step[OF s5]) simp_all
  have s7: "(49278 / 1000000 :: real) \<le> (5001 / 5120) ^ (2 * (2 * (2 * (2 * (2 * (2 * (2 * 1)))))))"
    by (rule square_lower_step[OF s6]) simp_all
  have "(2 * (2 * (2 * (2 * (2 * (2 * (2 * 1)))))) :: nat) = 128" by simp
  with s7 show ?thesis by simp
qed

lemma exp_405_lower: "39 < exp (81 / 20 :: real)"
proof -
  have "(39::real) < (1 + 81 / 160 + (81 / 160)\<^sup>2 / 2) ^ 8"
    by (simp add: power2_eq_square power_divide)
  also have "\<dots> \<le> exp (8 * (81 / 160))" by (rule exp_lower_pow8) simp
  finally show ?thesis by simp
qed

lemma exp_405_upper: "exp (81 / 20 :: real) \<le> 65"
proof -
  have "exp (81 / 20 :: real) \<le> 1 / (1 - (81 / 20) / 128) ^ 128"
    by (rule exp_upper_pow128) simp_all
  also have "\<dots> = 1 / (2479 / 2560) ^ 128" by simp
  also have "\<dots> \<le> 65"
  proof -
    have "0 < (2479 / 2560 :: real) ^ 128" by simp
    then show ?thesis using pow128_flood by (simp only: pos_divide_le_eq)
  qed
  finally show ?thesis .
qed

lemma exp_2975_lower: "18 < exp (119 / 40 :: real)"
proof -
  have "(18::real) < (1 + 119 / 320 + (119 / 320)\<^sup>2 / 2) ^ 8"
    by (simp add: power2_eq_square power_divide)
  also have "\<dots> \<le> exp (8 * (119 / 320))" by (rule exp_lower_pow8) simp
  finally show ?thesis by simp
qed

lemma exp_2975_upper: "exp (119 / 40 :: real) \<le> 21"
proof -
  have "exp (119 / 40 :: real) \<le> 1 / (1 - (119 / 40) / 128) ^ 128"
    by (rule exp_upper_pow128) simp_all
  also have "\<dots> = 1 / (5001 / 5120) ^ 128" by simp
  also have "\<dots> \<le> 21"
  proof -
    have "0 < (5001 / 5120 :: real) ^ 128" by simp
    then show ?thesis using pow128_landslide by (simp only: pos_divide_le_eq)
  qed
  finally show ?thesis .
qed

lemma round_sigmoid_between:
  fixes e :: real
  assumes "lo < e" and "e \<le> hi" and "0 < lo" and "0 < n"
    and "100 \<le> (of_int n + 1 / 2) * (1 + lo)" and "(of_int n - 1 / 2) * (1 + hi) \<le> 100"
  shows "round (clamp (100 / (1 + e)) 0 100) = n"
proof -
  have e: "0 < 1 + e" using assms by simp
  have n: "1 \<le> (of_int n :: real)" using assms by simp
  have up: "100 / (1 + e) < of_int n + 1 / 2"
  proof -
    have "(of_int n + 1 / 2) * (1 + lo) < (of_int n + 1 / 2) * (1 + e)"
      using assms n by (intro mult_strict_left_mono) simp_all
    then have "100 < (of_int n + 1 / 2) * (1 + e)" using assms by linarith
    then show ?thesis using e by (simp add: pos_divide_less_eq)
  qed
  have low: "of_int n - 1 / 2 \<le> 100 / (1 + e)"
  proof -
    have "(of_int n - 1 / 2) * (1 + e) \<le> (of_int n - 1 / 2) * (1 + hi)"
      using assms n by (intro mult_left_mono) simp_all
    then have "(of_int n - 1 / 2) * (1 + e) \<le> 100" using assms by linarith
    then show ?thesis using e by (simp add: pos_le_divide_eq)
  qed
  have pos: "0 \<le> 100 / (1 + e)" using e by simp
  have le: "100 / (1 + e) \<le> 100" using e assms by (simp add: pos_divide_le_eq)
  have "clamp (100 / (1 + e)) 0 100 = 100 / (1 + e)"
    using pos le by (simp add: clamp_def)
  moreover have "round (100 / (1 + e)) = n"
    by (rule round_unique) (use up low in linarith)+
  ultimately show ?thesis by simp
qed

lemma floodLinear_empty: "floodLinear emptyInput = 5"
  by (simp add: floodLinear_def intensityFlood_def persistence_def saturation_def
      reservoirStress_def anomaly_def seismic_def lowlandFactor_def anomalyRatio_def
      reservoirStressIndex_def levelStress_def flowStress_def normalizeReservoirLevel_def
      r24_def r72_def r7_def peak_def earthquakesNearbyNum_def elevationNum_def
      baselineAvgDailyNum_def reservoirContextOf_def rainSummaryOf_def emptyInput_def
      emptyRainSummary_def emptyReservoir_def safeNum_def toNumber_def coalesce_def clamp_def)

lemma landslideLinear_empty: "landslideLinear emptyInput = 13"
  by (simp add: landslideLinear_def intensityLand_def durationLand_def terrain_def
      seismicLand_def anomaly_def spillSlopeStress_def proneStateBoost_def anomalyRatio_def
      reservoirStress_def reservoirStressIndex_def levelStress_def flowStress_def
      normalizeReservoirLevel_def stateLower_def toLowerCase_def LANDSLIDE_PRONE_STATES_def
      r24_def r72_def r7_def peak_def earthquakesNearbyNum_def elevationNum_def
      baselineAvgDailyNum_def reservoirContextOf_def rainSummaryOf_def emptyInput_def
      emptyRainSummary_def emptyReservoir_def safeNum_def toNumber_def coalesce_def clamp_def)

lemma floodScore_empty: "floodScore emptyInput = 2"
proof -
  have "sigmoidTo100 (floodLinear emptyInput) 50 0.09 = 100 / (1 + exp (81 / 20))"
    by (simp add: sigmoidTo100_def floodLinear_empty)
  moreover have "round (clamp (100 / (1 + exp (81 / 20 :: real))) 0 100) = 2"
    by (rule round_sigmoid_between[OF exp_405_lower exp_405_upper]) simp_all
  ultimately show ?thesis by (simp add: floodScore_def)
qed

lemma landslideScore_empty: "landslideScore emptyInput = 5"
proof -
  have "sigmoidTo100 (landslideLinear emptyInput) 48 0.085 = 100 / (1 + exp (119 / 40))"
    by (simp add: sigmoidTo100_def landslideLinear_empty)
  moreover have "round (clamp (100 / (1 + exp (119 / 40 :: real))) 0 100) = 5"
    by (rule round_sigmoid_between[OF exp_2975_lower exp_2975_upper]) simp_all
  ultimately show ?thesis by (simp add: landslideScore_def)
qed

lemma confidenceOf_empty: "confidenceOf emptyInput = 64"
  by (simp add: confidenceOf_def completeness_def sourceDiversity_def featuresAvailable_def
      r24_def r72_def r7_def peak_def earthquakesNearbyNum_def elevationNum_def
      baselineAvgDailyNum_def normalizeReservoirLevel_def reservoirContextOf_def emptyInput_def
      rainSummaryOf_def emptyRainSummary_def emptyReservoir_def safeNum_def toNumber_def
      coalesce_def clamp_def)

text \<open>The same bundle with the rainfall sums and the quake count given as zeros.\<close>

lemma zeroRain_locals:
  "r24 zeroRainInput = 0" "r72 zeroRainInput = 0" "r7 zeroRainInput = 0"
  "peak zeroRainInput = 0" "earthquakesNearbyNum zeroRainInput = 0"
  "elevationNum zeroRainInput = None" "baselineAvgDailyNum zeroRainInput = None"
  "reservoirContextOf zeroRainInput = emptyReservoir" "stateLower zeroRainInput = []"
  by (simp_all add: r24_def r72_def r7_def peak_def earthquakesNearbyNum_def elevationNum_def
      baselineAvgDailyNum_def reservoirContextOf_def stateLower_def toLowerCase_def
      rainSummaryOf_def zeroRainInput_def safeNum_def toNumber_def coalesce_def)

lemma empty_locals:
  "r24 emptyInput = 0" "r72 emptyInput = 0" "r7 emptyInput = 0"
  "peak emptyInput = 0" "earthquakesNearbyNum emptyInput = 0"
  "elevationNum emptyInput = None" "baselineAvgDailyNum emptyInput = None"
  "reservoirContextOf emptyInput = emptyReservoir" "stateLower emptyInput = []"
  by (simp_all add: r24_def r72_def r7_def peak_def earthquakesNearbyNum_def elevationNum_def
      baselineAvgDailyNum_def reservoirContextOf_def stateLower_def toLowerCase_def
      rainSummaryOf_def emptyInput_def emptyRainSummary_def safeNum_def toNumber_def
      coalesce_def)

lemma zeroRain_scores:
  "floodScore zeroRainInput = floodScore emptyInput"
  "landslideScore zeroRainInput = landslideScore emptyInput"
  "confidenceOf zeroRainInput = confidenceOf emptyInput"
  by (simp_all add: floodScore_def floodLinear_def intensityFlood_def persistence_def
      saturation_def seismic_def anomaly_def anomalyRatio_def reservoirStress_def
      lowlandFactor_def landslideScore_def landslideLinear_def intensityLand_def
      durationLand_def seismicLand_def terrain_def proneStateBoost_def spillSlopeStress_def
      confidenceOf_def completeness_def featuresAvailable_def sourceDiversity_def
      zeroRain_locals empty_locals)

lemma completeness_floor:
  assumes "0 \<le> peak inp" and "0 \<le> earthquakesNearbyNum inp"
  shows "1 / 4 \<le> completeness inp"
proof -
  have "2 \<le> length (filter (\<lambda>b. b) (featuresAvailable inp))"
    using assms by (simp add: featuresAvailable_def)
  then have "2 \<le> real (length (filter (\<lambda>b. b) (featuresAvailable inp)))" by simp
  moreover have "real (length (featuresAvailable inp)) = 8" by (simp add: featuresAvailable_def)
  ultimately show ?thesis by (simp add: completeness_def)
qed

lemma confidence_floor:
  assumes "0 \<le> peak inp" and "0 \<le> earthquakesNearbyNum inp"
  shows "64 \<le> confidenceOf inp"
proof -
  let ?c = "45 + completeness inp * 40 + sourceDiversity inp * 3"
  have "64 \<le> ?c"
    using completeness_floor[OF assms] sourceDiversity_bounds[of inp] by simp
  then have "64 \<le> clamp ?c 0 100" by (simp add: clamp_def)
  then have "round (64::real) \<le> round (clamp ?c 0 100)" by (rule round_mono)
  then show ?thesis by (simp add: confidenceOf_def)
qed

text \<open>
  Claim C9. For the empty feature bundle (no rainfall sums or zero sums, no seismic
  events, no reservoir record, no elevation, no baseline) \<open>calculateAdvancedRisk\<close>
  returns a result with flood score 2 and landslide score 5, the values of the two
  logistic curves at the linear scores 5 and 13 that are left when every sub-index but
  the neutral anomaly and terrain is 0; both are far below 20. The confidence is 64 =
  45 + 40 * 2 / 8 + 3 * 3. That is the floor of the confidence: no bundle with a
  non-negative peak rainfall and quake count has less, and no bundle at all has less
  than 54.
\<close>

theorem empty_bundle_minimal_result:
  "flood_score (calculateAdvancedRisk emptyInput) = 2
   \<and> landslide_score (calculateAdvancedRisk emptyInput) = 5
   \<and> confidence (calculateAdvancedRisk emptyInput) = 64
   \<and> flood_score (calculateAdvancedRisk zeroRainInput) = 2
   \<and> landslide_score (calculateAdvancedRisk zeroRainInput) = 5
   \<and> confidence (calculateAdvancedRisk zeroRainInput) = 64
   \<and> flood_score (calculateAdvancedRisk emptyInput) \<le> 20
   \<and> landslide_score (calculateAdvancedRisk emptyInput) \<le> 20
   \<and> (\<forall>inp. 54 \<le> confidence (calculateAdvancedRisk inp))
   \<and> (\<forall>inp. 0 \<le> peak inp \<and> 0 \<le> earthquakesNearbyNum inp
          \<longrightarrow> 64 \<le> confidence (calculateAdvancedRisk inp))"
proof -
  have "\<forall>inp. 54 \<le> confidence (calculateAdvancedRisk inp)"
    using confidenceOf_bounds by (simp add: calculateAdvancedRisk_def)
  moreover have "\<forall>inp. 0 \<le> peak inp \<and> 0 \<le> earthquakesNearbyNum inp
                  \<longrightarrow> 64 \<le> confidence (calculateAdvancedRisk inp)"
    using confidence_floor by (simp add: calculateAdvancedRisk_def)
  ultimately show ?thesis
    by (simp add: calculateAdvancedRisk_def zeroRain_scores floodScore_empty
        landslideScore_empty confidenceOf_empty)
qed

theorem empty_bundle_minimal_result_witness:
  "0 \<le> peak (withRain24h 120 emptyInput)
   \<and> 0 \<le> earthquakesNearbyNum (withRain24h 120 emptyInput)
   \<and> 64 \<le> confidence (calculateAdvancedRisk (withRain24h 120 emptyInput))
   \<and> confidence (calculateAdvancedRisk emptyInput) = 64
   \<and> flood_score (calculateAdvancedRisk emptyInput) = 2
   \<and> landslide_score (calculateAdvancedRisk emptyInput) = 5"
proof -
  have p: "0 \<le> peak (withRain24h 120 emptyInput)"
    by (simp add: peak_with empty_locals)
  have q: "0 \<le> earthquakesNearbyNum (withRain24h 120 emptyInput)"
    by (simp add: earthquakes_with empty_locals)
  show ?thesis using empty_bundle_minimal_result p q by blast
qed

section \<open>Properties of the risk check\<close>

subsection \<open>The neutral anomaly\<close>

lemma anomaly_null_baseline: "baselineAvgDaily inp = Null \<Longrightarrow> anomaly inp = 50"
  by (simp add: anomaly_def anomalyRatio_def baselineAvgDailyNum_def toNumber_def clamp_def)

lemma riskCheckInput_baseline:
  "baselineAvgDaily (riskCheckInput dam rain sm significantEq reservoir) = Null"
  by (simp add: riskCheckInput_def Let_def)

lemma riskCheck_location_anomaly:
  "fl_anomaly (flood (components (calculateAdvancedRisk
      (riskCheckInput dam rain sm significantEq reservoir)))) = 50"
  "ls_anomaly (landslide (components (calculateAdvancedRisk
      (riskCheckInput dam rain sm significantEq reservoir)))) = 50"
  by (simp_all add: calculateAdvancedRisk_def anomaly_null_baseline riskCheckInput_baseline)

lemma riskCheckLoop_anomaly:
  "riskCheckLoop locs eqs rsv i rains acc = Inr acc' \<Longrightarrow>
   fl_anomaly (flood (componentTotals acc)) = 50 * int (count acc) \<Longrightarrow>
   ls_anomaly (landslide (componentTotals acc)) = 50 * int (count acc) \<Longrightarrow>
   fl_anomaly (flood (componentTotals acc')) = 50 * int (count acc')
   \<and> ls_anomaly (landslide (componentTotals acc')) = 50 * int (count acc')"
proof (induction rains arbitrary: i acc)
  case Nil
  then show ?case by simp
next
  case (Cons rain rest)
  show ?case
  proof (cases "summary rain")
    case None
    then show ?thesis using Cons by simp
  next
    case (Some sm)
    from Cons.prems(1) Some obtain reservoir where
      rsv: "riskCheckReservoir (nthOpt locs i) rsv = Inr reservoir"
      by (cases "riskCheckReservoir (nthOpt locs i) rsv") simp_all
    let ?acc = "addResult acc
                  (calculateAdvancedRisk (riskCheckInput (nthOpt locs i) rain sm eqs reservoir))"
    have step: "riskCheckLoop locs eqs rsv (i + 1) rest ?acc = Inr acc'"
      using Cons.prems(1) Some rsv by simp
    have "fl_anomaly (flood (componentTotals ?acc)) = 50 * int (count ?acc)"
         "ls_anomaly (landslide (componentTotals ?acc)) = 50 * int (count ?acc)"
      using Cons.prems(2,3)
      by (simp_all add: addResult_def addComponents_def riskCheck_location_anomaly)
    from Cons.IH[OF step this] show ?thesis .
  qed
qed

lemma riskCheckLoop_count:
  "riskCheckLoop locs eqs rsv i rains acc = Inr acc' \<Longrightarrow>
     count acc' = count acc + length (filter (\<lambda>r. summary r \<noteq> None) rains)"
proof (induction rains arbitrary: i acc)
  case Nil
  then show ?case by simp
next
  case (Cons rain rest)
  show ?case
  proof (cases "summary rain")
    case None
    then show ?thesis using Cons by simp
  next
    case (Some sm)
    from Cons.prems Some obtain reservoir where
      rsv: "riskCheckReservoir (nthOpt locs i) rsv = Inr reservoir"
      by (cases "riskCheckReservoir (nthOpt locs i) rsv") simp_all
    let ?acc = "addResult acc
                  (calculateAdvancedRisk (riskCheckInput (nthOpt locs i) rain sm eqs reservoir))"
    have "riskCheckLoop locs eqs rsv (i + 1) rest ?acc = Inr acc'"
      using Cons.prems Some rsv by simp
    from Cons.IH[OF this] show ?thesis using Some by (simp add: addResult_def)
  qed
qed

lemma average_50: "average (50 * int n) n = (if n = 0 then 0 else 50)"
  by (simp add: average_def)

lemma riskCheckBody_anomaly:
  assumes "riskCheckBody stamp locations (Inr d) = Inr a"
  shows "\<exists>dg. model_diagnostics a = Some dg
           \<and> fl_anomaly (flood (averaged_components dg))
               = (if filter (\<lambda>r. summary r \<noteq> None) (rainfallData d) = [] then 0 else 50)
           \<and> ls_anomaly (landslide (averaged_components dg))
               = (if filter (\<lambda>r. summary r \<noteq> None) (rainfallData d) = [] then 0 else 50)"
proof -
  let ?loop = "riskCheckLoop locations (significantEqOf (earthquakes d)) (reservoirLevels d) 0
                 (rainfallData d) initialAcc"
  from assms obtain acc where acc: "?loop = Inr acc"
    by (cases ?loop) (simp_all add: riskCheckBody_def)
  have tot: "fl_anomaly (flood (componentTotals acc)) = 50 * int (count acc)"
            "ls_anomaly (landslide (componentTotals acc)) = 50 * int (count acc)"
    using riskCheckLoop_anomaly[OF acc] by (simp_all add: initialAcc_def zeroComponents_def)
  have cnt: "count acc = length (filter (\<lambda>r. summary r \<noteq> None) (rainfallData d))"
    using riskCheckLoop_count[OF acc] by (simp add: initialAcc_def)
  have "model_diagnostics a
          = Some \<lparr>diag_confidence = average (confidenceSum acc) (count acc),
                  averaged_components = averageComponents (componentTotals acc) (count acc),
                  diag_notes =
                    [''Scores use nonlinear fusion of rainfall intensity/persistence/saturation, seismic signal, terrain, and NWDP reservoir stress when matched.'',
                     ''Confidence is based on feature completeness and source availability; it is not a historical accuracy metric.'']\<rparr>"
    using assms acc by (auto simp: riskCheckBody_def Let_def)
  then show ?thesis
    by (simp add: averageComponents_def tot average_50 cnt)
qed

subsection \<open>When the risk check returns\<close>

lemma matchReservoirToDam_returns:
  assumes "\<not> inheritedKey (toLowerCase (dam_name d))"
  shows "\<exists>r. matchReservoirToDam (Some d) rs minScore = Inr r"
proof -
  from matchLoop_selects[OF assms, of rs None 0] obtain b s where
    "matchLoop d rs None 0 = Inr (b, s)" by blast
  then show ?thesis by (simp add: matchReservoirToDam_def)
qed

lemma riskCheckReservoir_returns:
  assumes "\<forall>l \<in> set locs. \<not> inheritedKey (toLowerCase (dam_name l))"
  shows "\<exists>r. riskCheckReservoir (nthOpt locs i) rsv = Inr r"
proof (cases "i < length locs")
  case True
  then have "\<not> inheritedKey (toLowerCase (dam_name (locs ! i)))" using assms by simp
  from matchReservoirToDam_returns[OF this] True show ?thesis
    by (simp add: riskCheckReservoir_def nthOpt_def)
next
  case False
  then show ?thesis by (simp add: riskCheckReservoir_def nthOpt_def)
qed

lemma riskCheckLoop_returns:
  assumes "\<forall>l \<in> set locs. \<not> inheritedKey (toLowerCase (dam_name l))"
  shows "\<exists>acc'. riskCheckLoop locs eqs rsv i rains acc = Inr acc'"
proof (induction rains arbitrary: i acc)
  case Nil
  then show ?case by simp
next
  case (Cons rain rest)
  show ?case
  proof (cases "summary rain")
    case None
    then show ?thesis using Cons.IH by simp
  next
    case (Some sm)
    from riskCheckReservoir_returns[OF assms, of i rsv] obtain r where
      "riskCheckReservoir (nthOpt locs i) rsv = Inr r" by blast
    then show ?thesis using Some Cons.IH by simp
  qed
qed

lemma riskCheckBody_returns:
  assumes "\<forall>l \<in> set locations. \<not> inheritedKey (toLowerCase (dam_name l))"
  shows "\<exists>a. riskCheckBody stamp locations (Inr d) = Inr a"
proof -
  from riskCheckLoop_returns[OF assms] obtain acc where
    "riskCheckLoop locations (significantEqOf (earthquakes d)) (reservoirLevels d) 0
       (rainfallData d) initialAcc = Inr acc" by blast
  then show ?thesis by (simp add: riskCheckBody_def Let_def)
qed

lemma riskCheckBody_failure_unsuccessful:
  "riskCheckBody stamp locations (Inl e) = Inr a \<Longrightarrow> \<not> success a"
  by (cases "messageOf e") (auto simp: riskCheckBody_def)

lemma runRiskCheck_anomaly:
  assumes "runRiskCheck stamp dams configLocations cfg net = Inr a" and "success a"
  shows "\<exists>d dg. fetchBlock cfg net (locationsOf dams configLocations) = Inr d
           \<and> model_diagnostics a = Some dg
           \<and> fl_anomaly (flood (averaged_components dg))
               = (if filter (\<lambda>r. summary r \<noteq> None) (rainfallData d) = [] then 0 else 50)
           \<and> ls_anomaly (landslide (averaged_components dg))
               = (if filter (\<lambda>r. summary r \<noteq> None) (rainfallData d) = [] then 0 else 50)"
proof (cases "fetchBlock cfg net (locationsOf dams configLocations)")
  case (Inl e)
  then have "riskCheckBody stamp (locationsOf dams configLocations) (Inl e) = Inr a"
    using assms(1) by (simp add: runRiskCheck_def Let_def)
  from riskCheckBody_failure_unsuccessful[OF this] assms(2) show ?thesis by simp
next
  case (Inr d)
  then have "riskCheckBody stamp (locationsOf dams configLocations) (Inr d) = Inr a"
    using assms(1) by (simp add: runRiskCheck_def Let_def)
  from riskCheckBody_anomaly[OF this] Inr show ?thesis by blast
qed

text \<open>
  Claim C10. The bundle that \<open>runRiskCheck\<close> builds for a location always has the
  baseline \<open>null\<close>, so the anomaly sub-index of the flood components and of the
  landslide components of every scored location is exactly 50; consequently the
  averaged anomaly in the diagnostics of every assessment that the scoring path
  produces is 50 (and 0, like every average, when no location was scored). The scoring
  path does produce an assessment whenever no location has a name that makes the
  matcher throw. No baseline is an input of \<open>runRiskCheck\<close>.
\<close>

theorem riskCheck_anomaly_neutral:
  "baselineAvgDaily (riskCheckInput dam rain sm significantEq reservoir) = Null
   \<and> fl_anomaly (flood (components (calculateAdvancedRisk
        (riskCheckInput dam rain sm significantEq reservoir)))) = 50
   \<and> ls_anomaly (landslide (components (calculateAdvancedRisk
        (riskCheckInput dam rain sm significantEq reservoir)))) = 50
   \<and> (riskCheckBody stamp locations (Inr d) = Inr a \<longrightarrow>
        (\<exists>dg. model_diagnostics a = Some dg
           \<and> fl_anomaly (flood (averaged_components dg))
               = (if filter (\<lambda>r. summary r \<noteq> None) (rainfallData d) = [] then 0 else 50)
           \<and> ls_anomaly (landslide (averaged_components dg))
               = (if filter (\<lambda>r. summary r \<noteq> None) (rainfallData d) = [] then 0 else 50)))
   \<and> ((\<forall>l \<in> set locations. \<not> inheritedKey (toLowerCase (dam_name l))) \<longrightarrow>
        (\<exists>a'. riskCheckBody stamp locations (Inr d) = Inr a'))
   \<and> (runRiskCheck stamp dams configLocations cfg net = Inr b \<and> success b \<longrightarrow>
        (\<exists>d' dg. fetchBlock cfg net (locationsOf dams configLocations) = Inr d'
           \<and> model_diagnostics b = Some dg
           \<and> fl_anomaly (flood (averaged_components dg))
               = (if filter (\<lambda>r. summary r \<noteq> None) (rainfallData d') = [] then 0 else 50)
           \<and> ls_anomaly (landslide (averaged_components dg))
               = (if filter (\<lambda>r. summary r \<noteq> None) (rainfallData d') = [] then 0 else 50)))"
  using riskCheckBody_anomaly[of stamp locations d a] riskCheckBody_returns[of locations stamp d]
    runRiskCheck_anomaly[of stamp dams configLocations cfg net b]
  by (simp add: riskCheckInput_baseline riskCheck_location_anomaly)

theorem riskCheck_anomaly_neutral_witness:
  "\<not> inheritedKey (toLowerCase (dam_name exampleIndiraDam))
   \<and> (\<exists>a dg. riskCheckBody exampleStamp [exampleIndiraDam] (Inr exampleFetched) = Inr a
          \<and> model_diagnostics a = Some dg
          \<and> fl_anomaly (flood (averaged_components dg)) = 50
          \<and> ls_anomaly (landslide (averaged_components dg)) = 50)"
proof -
  have ok: "\<not> inheritedKey (toLowerCase (dam_name exampleIndiraDam))"
    by (simp add: exampleIndiraDam_def inheritedKey_def toLowerCase_def toLowerChar_def
        isUpper_def)
  then have all: "\<forall>l \<in> set [exampleIndiraDam]. \<not> inheritedKey (toLowerCase (dam_name l))"
    by simp
  have scored: "filter (\<lambda>r. summary r \<noteq> None) (rainfallData exampleFetched) \<noteq> []"
    by (simp add: exampleFetched_def)
  from riskCheck_anomaly_neutral
    [where locations = "[exampleIndiraDam]" and stamp = exampleStamp and d = exampleFetched]
    all
  obtain a where a: "riskCheckBody exampleStamp [exampleIndiraDam] (Inr exampleFetched) = Inr a"
    by blast
  have "riskCheckBody exampleStamp [exampleIndiraDam] (Inr exampleFetched) = Inr a \<longrightarrow>
        (\<exists>dg. model_diagnostics a = Some dg
           \<and> fl_anomaly (flood (averaged_components dg))
               = (if filter (\<lambda>r. summary r \<noteq> None) (rainfallData exampleFetched) = []
                  then 0 else 50)
           \<and> ls_anomaly (landslide (averaged_components dg))
               = (if filter (\<lambda>r. summary r \<noteq> None) (rainfallData exampleFetched) = []
                  then 0 else 50))"
    using riskCheck_anomaly_neutral
      [where locations = "[exampleIndiraDam]" and stamp = exampleStamp and d = exampleFetched
         and a = a]
    by blast
  with a scored obtain dg where "model_diagnostics a = Some dg"
    "fl_anomaly (flood (averaged_components dg)) = 50"
    "ls_anomaly (landslide (averaged_components dg)) = 50"
    by (auto simp del: filter.simps)
  with a ok show ?thesis by blast
qed

subsection \<open>Failing requests\<close>


lemma fetchLocation_null_throw:
  assumes "rainfallFirst net loc = Inl Nullish" and "isl (rainfallRetry net loc)"
  shows "fetchLocation net loc = Inl TypeError"
proof -
  from assms(2) obtain e2 where "rainfallRetry net loc = Inl e2"
    by (cases "rainfallRetry net loc") auto
  then show ?thesis using assms(1) by (simp add: fetchLocation_def messageOf_def)
qed






















section \<open>Properties of the high-risk zones\<close>

lemma set_insertBy: "set (insertBy cmp x xs) = insert x (set xs)"
  by (induction xs) auto

lemma set_sortBy: "set (sortBy cmp xs) = set xs"
  by (induction xs) (auto simp: set_insertBy)

lemma length_insertBy: "length (insertBy cmp x xs) = Suc (length xs)"
  by (induction xs) auto

lemma length_sortBy: "length (sortBy cmp xs) = length xs"
  by (induction xs) (auto simp: length_insertBy)

text \<open>
  A comparator that is total and transitive in the sense below is consistent, and the
  insertion sort arranges any list in its order.
\<close>

lemma sorted_insertBy:
  assumes total: "\<And>a b. cmp a b \<le> 0 \<or> cmp b a \<le> 0"
    and trans: "\<And>a b c. cmp a b \<le> 0 \<Longrightarrow> cmp b c \<le> 0 \<Longrightarrow> cmp a c \<le> 0"
    and sorted: "sorted_wrt (\<lambda>a b. cmp a b \<le> 0) xs"
  shows "sorted_wrt (\<lambda>a b. cmp a b \<le> 0) (insertBy cmp x xs)"
  using sorted
proof (induction xs)
  case Nil
  then show ?case by simp
next
  case (Cons y ys)
  show ?case
  proof (cases "cmp x y \<le> 0")
    case True
    have "\<forall>z \<in> set ys. cmp x z \<le> 0"
      using Cons.prems True trans by auto
    then show ?thesis using True Cons.prems by simp
  next
    case False
    then have "cmp y x \<le> 0" using total[of x y] by simp
    then show ?thesis using False Cons by (auto simp: set_insertBy)
  qed
qed

lemma sorted_sortBy:
  assumes "\<And>a b. cmp a b \<le> 0 \<or> cmp b a \<le> 0"
    and "\<And>a b c. cmp a b \<le> 0 \<Longrightarrow> cmp b c \<le> 0 \<Longrightarrow> cmp a c \<le> 0"
  shows "sorted_wrt (\<lambda>a b. cmp a b \<le> 0) (sortBy cmp xs)"
  by (induction xs) (simp_all add: sorted_insertBy[OF assms])

lemma zoneCompare_le_iff:
  "zoneCompare a b \<le> 0 \<longleftrightarrow>
     (zone_severity a = HIGH \<and> zone_severity b \<noteq> HIGH)
     \<or> ((zone_severity a = HIGH \<longleftrightarrow> zone_severity b = HIGH) \<and> zoneMax b \<le> zoneMax a)"
proof (cases "zone_severity a = HIGH")
  case True
  then show ?thesis by (cases "zone_severity b = HIGH") (simp_all add: zoneCompare_def zoneMax_def)
next
  case False
  then show ?thesis by (cases "zone_severity b = HIGH") (simp_all add: zoneCompare_def zoneMax_def)
qed

lemma zoneCompare_total: "zoneCompare a b \<le> 0 \<or> zoneCompare b a \<le> 0"
  unfolding zoneCompare_le_iff by (cases "zoneMax b \<le> zoneMax a") auto

lemma zoneCompare_trans:
  assumes "zoneCompare a b \<le> 0" and "zoneCompare b c \<le> 0"
  shows "zoneCompare a c \<le> 0"
proof (cases "zone_severity a = HIGH \<and> zone_severity c \<noteq> HIGH")
  case True
  then show ?thesis by (simp add: zoneCompare_le_iff)
next
  case False
  from assms False have sev: "zone_severity a = HIGH \<longleftrightarrow> zone_severity c = HIGH"
    and "zone_severity a = HIGH \<longleftrightarrow> zone_severity b = HIGH"
    and "zone_severity b = HIGH \<longleftrightarrow> zone_severity c = HIGH"
    unfolding zoneCompare_le_iff by blast+
  with assms have "zoneMax b \<le> zoneMax a" and "zoneMax c \<le> zoneMax b"
    unfolding zoneCompare_le_iff by blast+
  then have "zoneMax c \<le> zoneMax a" by simp
  with sev show ?thesis by (simp add: zoneCompare_le_iff)
qed

lemma zoneCompare_order:
  assumes "zoneCompare a b \<le> 0"
  shows "(zone_severity b = HIGH \<longrightarrow> zone_severity a = HIGH)
         \<and> (zone_severity a = zone_severity b \<longrightarrow> zoneMax b \<le> zoneMax a)"
  using assms unfolding zoneCompare_le_iff by auto

lemma high_risk_zones_set:
  "set (high_risk_zones damResults)
     = toZone ` {d \<in> set damResults.
                  dr_flood_risk_level d \<noteq> LOW \<or> dr_landslide_risk_level d \<noteq> LOW}"
  by (simp add: high_risk_zones_def set_sortBy)

text \<open>
  Claim C7. Every dam of the batch whose flood level or landslide level is not LOW has
  its entry in \<open>high_risk_zones\<close>; the list depends on the dam results alone, not on
  any state average. Of two entries of the list the earlier one is never of lower
  severity (HIGH comes before MEDIUM), and when both are of the same severity the
  earlier one has the greater or equal maximum of flood and landslide score.
\<close>

theorem high_risk_zones_complete_sorted:
  "(\<forall>d \<in> set damResults.
      dr_flood_risk_level d \<noteq> LOW \<or> dr_landslide_risk_level d \<noteq> LOW
        \<longrightarrow> toZone d \<in> set (high_risk_zones damResults))
   \<and> sorted_wrt
        (\<lambda>a b. (zone_severity b = HIGH \<longrightarrow> zone_severity a = HIGH)
               \<and> (zone_severity a = zone_severity b \<longrightarrow> zoneMax b \<le> zoneMax a))
        (high_risk_zones damResults)"
proof -
  have cmp: "sorted_wrt (\<lambda>a b. zoneCompare a b \<le> 0) (high_risk_zones damResults)"
    unfolding high_risk_zones_def
    by (rule sorted_sortBy) (rule zoneCompare_total, rule zoneCompare_trans)
  have ordered: "sorted_wrt
      (\<lambda>a b. (zone_severity b = HIGH \<longrightarrow> zone_severity a = HIGH)
             \<and> (zone_severity a = zone_severity b \<longrightarrow> zoneMax b \<le> zoneMax a))
      (high_risk_zones damResults)"
    by (rule sorted_wrt_mono_rel[OF _ cmp]) (rule zoneCompare_order)
  have complete: "\<forall>d \<in> set damResults.
      dr_flood_risk_level d \<noteq> LOW \<or> dr_landslide_risk_level d \<noteq> LOW
        \<longrightarrow> toZone d \<in> set (high_risk_zones damResults)"
    unfolding high_risk_zones_set by blast
  from complete ordered show ?thesis by (rule conjI)
qed

lemma example_zone_order:
  "map zone_dam (high_risk_zones exampleResults)
     = [''Tehri Dam'', ''Mullaperiyar Dam'', ''Koyna Dam'']"
  "map zone_severity (high_risk_zones exampleResults) = [HIGH, HIGH, MEDIUM]"
  "map zoneMax (high_risk_zones exampleResults) = [88, 71, 58]"
  by code_simp+

lemma example_state_levels:
  "dr_flood_risk_level exampleHotspot = HIGH"
  "stateKey exampleHotspot = ''Kerala''"
  "state_flood_level exampleResults ''Kerala'' = LOW"
  "state_landslide_level exampleResults ''Kerala'' = LOW"
  by code_simp+

theorem high_risk_zones_complete_sorted_witness:
  "exampleHotspot \<in> set exampleResults
   \<and> dr_flood_risk_level exampleHotspot = HIGH
   \<and> stateKey exampleHotspot = ''Kerala''
   \<and> state_flood_level exampleResults ''Kerala'' = LOW
   \<and> state_landslide_level exampleResults ''Kerala'' = LOW
   \<and> toZone exampleHotspot \<in> set (high_risk_zones exampleResults)
   \<and> map zone_dam (high_risk_zones exampleResults)
       = [''Tehri Dam'', ''Mullaperiyar Dam'', ''Koyna Dam'']
   \<and> map zone_severity (high_risk_zones exampleResults) = [HIGH, HIGH, MEDIUM]
   \<and> map zoneMax (high_risk_zones exampleResults) = [88, 71, 58]"
proof -
  have dam: "exampleHotspot \<in> set exampleResults"
    by (simp add: exampleResults_def)
  have lvl: "dr_flood_risk_level exampleHotspot \<noteq> LOW"
    by (simp add: example_state_levels)
  have "toZone exampleHotspot \<in> set (high_risk_zones exampleResults)"
    using high_risk_zones_complete_sorted[of exampleResults] dam lvl by blast
  then show ?thesis
    using dam by (simp add: example_zone_order example_state_levels)
qed

section \<open>Properties of the trend tracker and the escalation gate\<close>

subsection \<open>The bounded history\<close>

lemma slice_last_rev: "0 < n \<Longrightarrow> slice_last n xs = rev (take n (rev xs))"
  by (simp add: slice_last_def take_rev)

lemma slice_last_idem: "0 < n \<Longrightarrow> slice_last n (slice_last n xs @ ys) = slice_last n (xs @ ys)"
proof -
  assume n: "0 < n"
  have "take n (rev ys @ take n (rev xs)) = take n (rev ys @ rev xs)"
    by (simp add: min_def)
  then show ?thesis using n by (simp add: slice_last_rev)
qed

lemma length_slice_last: "0 < n \<Longrightarrow> length (slice_last n xs) \<le> n"
  by (simp add: slice_last_def)

lemma length_slice_last_le: "length (slice_last n xs) \<le> length xs"
  by (simp add: slice_last_def)

lemma historyOf_update:
  "historyOf (fst (updateHistory h k s now 8)) k
     = slice_last 8 (historyOf h k @ [mkPoint (s, now)])"
  by (simp add: updateHistory_def historyOf_def mkPoint_def Let_def)

lemma updateHistory_full_window:
  "length (historyOf h k) = 8 \<Longrightarrow>
     historyOf (fst (updateHistory h k s now 8)) k = tl (historyOf h k) @ [mkPoint (s, now)]"
  by (cases "historyOf h k") (simp_all add: historyOf_update slice_last_def)

lemma appendAll_history:
  "ps \<noteq> [] \<Longrightarrow>
     historyOf (appendAll h k ps) k = slice_last 8 (historyOf h k @ map mkPoint ps)"
proof (induction ps arbitrary: h)
  case Nil
  then show ?case by simp
next
  case (Cons p ps)
  obtain s now where p: "p = (s, now)" by (cases p)
  show ?case
  proof (cases "ps = []")
    case True
    then show ?thesis using p by (simp add: historyOf_update)
  next
    case False
    have "historyOf (appendAll h k (p # ps)) k
          = slice_last 8 (slice_last 8 (historyOf h k @ [mkPoint p]) @ map mkPoint ps)"
      using Cons.IH[OF False] p by (simp add: historyOf_update)
    also have "\<dots> = slice_last 8 ((historyOf h k @ [mkPoint p]) @ map mkPoint ps)"
      by (rule slice_last_idem) simp
    finally show ?thesis by simp
  qed
qed

lemma appendAll_other: "k' \<noteq> k \<Longrightarrow> appendAll h k ps k' = h k'"
  by (induction ps arbitrary: h) (auto simp: updateHistory_def Let_def)

text \<open>
  Claim C6. Whatever the stored history of a location was, after points are appended to
  it with the window of 8 the stored history has at most 8 points, and it is the
  sequence of all points (the old ones followed by the appended ones, in order) with
  its earliest points removed: eviction is first in, first out. The histories of the
  other locations are untouched.
\<close>

theorem trend_history_fifo_bound:
  assumes "ps \<noteq> []"
  shows "length (historyOf (appendAll h k ps) k) \<le> 8
       \<and> historyOf (appendAll h k ps) k
           = drop (length (historyOf h k @ map mkPoint ps) - 8) (historyOf h k @ map mkPoint ps)
       \<and> (\<forall>k'. k' \<noteq> k \<longrightarrow> appendAll h k ps k' = h k')"
  using assms
  by (simp add: appendAll_history appendAll_other length_slice_last) (simp add: slice_last_def)

theorem trend_history_fifo_bound_witness:
  "[(10, 1), (20, 2), (30, 3), (40, 4), (50, 5), (60, 6), (70, 7), (80, 8), (90, 9), (95, 10)]
     \<noteq> ([] :: (int \<times> nat) list)
   \<and> historyOf (appendAll Map.empty ''tehri''
        [(10, 1), (20, 2), (30, 3), (40, 4), (50, 5), (60, 6), (70, 7), (80, 8), (90, 9),
         (95, 10)]) ''tehri''
      = map mkPoint [(30, 3), (40, 4), (50, 5), (60, 6), (70, 7), (80, 8), (90, 9), (95, 10)]
   \<and> appendAll Map.empty ''tehri''
        [(10, 1), (20, 2), (30, 3), (40, 4), (50, 5), (60, 6), (70, 7), (80, 8), (90, 9),
         (95, 10)] ''koyna'' = None"
  using trend_history_fifo_bound
    [of "[(10, 1), (20, 2), (30, 3), (40, 4), (50, 5), (60, 6), (70, 7), (80, 8), (90, 9),
          (95, 10)]" Map.empty "''tehri''"]
  by (simp add: historyOf_def)

subsection \<open>The rising streak\<close>

lemma risingLoop_le: "risingLoop history j r \<le> r + j"
  by (induction history j r rule: risingLoop.induct) auto

lemma consecutiveRising_le: "consecutiveRising history \<le> length history - 1"
  using risingLoop_le[of history "length history - 1" 0] by (simp add: consecutiveRising_def)

lemma nowcastDam_rising:
  "rising (snd (nowcastDam cfg h k oneHour now))
     = consecutiveRising (snd (updateHistory h k (overall1h oneHour) now 8))"
  by (simp add: nowcastDam_def Let_def split: prod.splits)

lemma nowcastDam_emergency:
  "emergency_triggered (snd (nowcastDam cfg h k oneHour now))
     \<longleftrightarrow> real_of_int (overall1h oneHour) \<ge> emergencyThreshold cfg
        \<and> real (rising (snd (nowcastDam cfg h k oneHour now))) \<ge> max 1 (risingChecks cfg - 1)"
  by (simp add: nowcastDam_def Let_def split: prod.splits)

lemma nowcastDam_rising_le_history:
  "rising (snd (nowcastDam cfg h k oneHour now)) \<le> length (historyOf h k)"
proof -
  have "length (snd (updateHistory h k (overall1h oneHour) now 8)) \<le> length (historyOf h k) + 1"
    using length_slice_last_le[of 8 "historyOf h k @ [\<lparr>score = overall1h oneHour, ts = now\<rparr>]"]
    by (simp add: updateHistory_def historyOf_def Let_def)
  then show ?thesis
    unfolding nowcastDam_rising
    using consecutiveRising_le[of "snd (updateHistory h k (overall1h oneHour) now 8)"]
    by linarith
qed

text \<open>
  Claim C2. Under the default configuration (emergency threshold 75, three rising
  checks), a nowcast run whose rising count for the location is below 2, which is
  \<open>rising_checks - 1\<close>, never sets the emergency flag, however high the sample is. In
  particular a sample for a location with fewer than two stored points cannot set it.
\<close>

theorem emergency_needs_rising_streak:
  "(rising (snd (nowcastDam defaultNowcastCfg h k oneHour now)) < 2
      \<longrightarrow> \<not> emergency_triggered (snd (nowcastDam defaultNowcastCfg h k oneHour now)))
   \<and> (length (historyOf h k) < 2
      \<longrightarrow> \<not> emergency_triggered (snd (nowcastDam defaultNowcastCfg h k oneHour now)))"
proof -
  let ?r = "snd (nowcastDam defaultNowcastCfg h k oneHour now)"
  have gate: "rising ?r < 2 \<Longrightarrow> \<not> emergency_triggered ?r"
    unfolding nowcastDam_emergency
    by (simp add: risingChecks_def defaultNowcastCfg_def nullish_default_def)
  have "rising ?r \<le> length (historyOf h k)"
    by (rule nowcastDam_rising_le_history)
  then show ?thesis using gate by auto
qed

theorem emergency_needs_rising_streak_witness:
  "rising (snd (nowcastDam defaultNowcastCfg
       [''tehri'' \<mapsto> [\<lparr>score = 96, ts = 1000\<rparr>]] ''tehri''
       \<lparr>flood_score_1h = 92, landslide_score_1h = 81\<rparr> 2000)) < 2
   \<and> length (historyOf [''tehri'' \<mapsto> [\<lparr>score = 96, ts = 1000\<rparr>]] ''tehri'') < 2
   \<and> real_of_int (overall1h \<lparr>flood_score_1h = 92, landslide_score_1h = 81\<rparr>)
       \<ge> emergencyThreshold defaultNowcastCfg
   \<and> \<not> emergency_triggered (snd (nowcastDam defaultNowcastCfg
       [''tehri'' \<mapsto> [\<lparr>score = 96, ts = 1000\<rparr>]] ''tehri''
       \<lparr>flood_score_1h = 92, landslide_score_1h = 81\<rparr> 2000))"
  using emergency_needs_rising_streak
    [of "[''tehri'' \<mapsto> [\<lparr>score = 96, ts = 1000\<rparr>]]" "''tehri''"
        "\<lparr>flood_score_1h = 92, landslide_score_1h = 81\<rparr>" 2000]
  by (simp add: nowcastDam_rising updateHistory_def slice_last_def consecutiveRising_def
      historyOf_def overall1h_def emergencyThreshold_def defaultNowcastCfg_def
      nullish_default_def Let_def numeral_eq_Suc)

text \<open>
  Claim C1 as stated: for a location without history, three runs with the scores 40, 55
  and 70, three rising checks and the warning threshold 60 set the warning flag on the
  third run. The code counts rising comparisons, of which three points have two, so
  the flag stays off.
\<close>

theorem warning_three_samples_counterexample:
  "\<not> warning_triggered (last (snd (nowcastRuns
        \<lparr>warning_threshold = Some 60, emergency_threshold = None, rising_checks = Some 3\<rparr>
        Map.empty ''tehri''
        [(\<lparr>flood_score_1h = 40, landslide_score_1h = 31\<rparr>, 1000),
         (\<lparr>flood_score_1h = 55, landslide_score_1h = 38\<rparr>, 2000),
         (\<lparr>flood_score_1h = 70, landslide_score_1h = 44\<rparr>, 3000)])))"
  by (simp add: nowcastDam_def updateHistory_def slice_last_def consecutiveRising_def
      overall1h_def warningThreshold_def risingChecks_def nullish_default_def Let_def
      numeral_eq_Suc split: prod.splits)

text \<open>
  Claim C1, amended. For a location with empty prior history, with three rising checks
  and the warning threshold 60, four consecutive runs with strictly increasing overall
  scores, the last at least 60, give the rising counts 0, 1, 2, 3 and set the warning
  flag on the fourth run and on none of the first three.
\<close>

theorem warning_after_four_rising_samples:
  assumes "h k = None"
    and "overall1h o1 < overall1h o2" and "overall1h o2 < overall1h o3"
    and "overall1h o3 < overall1h o4" and "60 \<le> overall1h o4"
  shows "map warning_triggered (snd (nowcastRuns
            \<lparr>warning_threshold = Some 60, emergency_threshold = e, rising_checks = Some 3\<rparr>
            h k [(o1, t1), (o2, t2), (o3, t3), (o4, t4)]))
           = [False, False, False, True]
       \<and> map rising (snd (nowcastRuns
            \<lparr>warning_threshold = Some 60, emergency_threshold = e, rising_checks = Some 3\<rparr>
            h k [(o1, t1), (o2, t2), (o3, t3), (o4, t4)]))
           = [0, 1, 2, 3]"
  using assms
  by (simp add: nowcastDam_def updateHistory_def slice_last_def consecutiveRising_def
      warningThreshold_def risingChecks_def nullish_default_def Let_def numeral_eq_Suc
      split: prod.splits)

theorem warning_after_four_rising_samples_witness:
  "(Map.empty :: string \<rightharpoonup> point list) ''tehri'' = None
   \<and> overall1h \<lparr>flood_score_1h = 25, landslide_score_1h = 20\<rparr>
       < overall1h \<lparr>flood_score_1h = 40, landslide_score_1h = 31\<rparr>
   \<and> overall1h \<lparr>flood_score_1h = 40, landslide_score_1h = 31\<rparr>
       < overall1h \<lparr>flood_score_1h = 55, landslide_score_1h = 38\<rparr>
   \<and> overall1h \<lparr>flood_score_1h = 55, landslide_score_1h = 38\<rparr>
       < overall1h \<lparr>flood_score_1h = 70, landslide_score_1h = 44\<rparr>
   \<and> 60 \<le> overall1h \<lparr>flood_score_1h = 70, landslide_score_1h = 44\<rparr>
   \<and> map warning_triggered (snd (nowcastRuns
        \<lparr>warning_threshold = Some 60, emergency_threshold = None, rising_checks = Some 3\<rparr>
        Map.empty ''tehri''
        [(\<lparr>flood_score_1h = 25, landslide_score_1h = 20\<rparr>, 1000),
         (\<lparr>flood_score_1h = 40, landslide_score_1h = 31\<rparr>, 2000),
         (\<lparr>flood_score_1h = 55, landslide_score_1h = 38\<rparr>, 3000),
         (\<lparr>flood_score_1h = 70, landslide_score_1h = 44\<rparr>, 4000)]))
      = [False, False, False, True]"
  using warning_after_four_rising_samples
    [where h = "Map.empty :: string \<rightharpoonup> point list" and k = "''tehri''"
       and ?o1.0 = "\<lparr>flood_score_1h = 25, landslide_score_1h = 20\<rparr>"
       and ?o2.0 = "\<lparr>flood_score_1h = 40, landslide_score_1h = 31\<rparr>"
       and ?o3.0 = "\<lparr>flood_score_1h = 55, landslide_score_1h = 38\<rparr>"
       and ?o4.0 = "\<lparr>flood_score_1h = 70, landslide_score_1h = 44\<rparr>"
       and e = None and ?t1.0 = 1000 and ?t2.0 = 2000 and ?t3.0 = 3000 and ?t4.0 = 4000]
  by (simp add: overall1h_def)

end
